theory Spec2Isabelle
  imports
    Complex_Main
    "HOL-Library.Signed_Division"
    "HOL-Library.AList"
    "HOL-Library.Multiset"
begin

section \<open>Objects, errors and the API client\<close>

text \<open>
  A Go \<open>map[string]string\<close> is an association list with at most one entry per key:
  \<open>map_of\<close> reads it, \<open>AList.update\<close> writes it.
\<close>

type_synonym string_map = "(string \<times> string) list"

datatype kind =
  KNamespace | KNode | KConfigMap | KSecret | KRoute | KService
  | KImageStream | KBuildConfig | KEvent

text \<open>The conditions the client reports distinctly, and every other failure.\<close>

datatype api_error = NotFound | AlreadyExists | Conflict | ServerError

text \<open>
  A Go \<open>error\<close> value: an API error, \<open>fmt.Errorf\<close> with \<open>%w\<close> around a cause,
  \<open>fmt.Errorf\<close> without a cause, and the timeout of \<open>wait.ExponentialBackoff\<close>.
\<close>

datatype error =
  ApiError api_error
  | Errorf string error
  | ErrorNew string
  | ErrWaitTimeout

fun IsConflict :: "error \<Rightarrow> bool" where
  "IsConflict (ApiError e) = (e = Conflict)"
| "IsConflict (Errorf _ e) = IsConflict e"
| "IsConflict _ = False"

fun IsNotFound :: "error \<Rightarrow> bool" where
  "IsNotFound (ApiError e) = (e = NotFound)"
| "IsNotFound (Errorf _ e) = IsNotFound e"
| "IsNotFound _ = False"

fun IsAlreadyExists :: "error \<Rightarrow> bool" where
  "IsAlreadyExists (ApiError e) = (e = AlreadyExists)"
| "IsAlreadyExists (Errorf _ e) = IsAlreadyExists e"
| "IsAlreadyExists _ = False"

section \<open>Go integers and strings\<close>

text \<open>
  Conversion to \<open>int32\<close> and \<open>int64\<close> keeps the low bits, read as two's complement.
  The Go \<open>int\<close> has 64 bits. Division and remainder truncate towards zero
  (\<open>sdiv\<close>, \<open>smod\<close>).
\<close>

definition int32 :: "int \<Rightarrow> int" where
  "int32 x = (x + 2 ^ 31) mod 2 ^ 32 - 2 ^ 31"

definition int64 :: "int \<Rightarrow> int" where
  "int64 x = (x + 2 ^ 63) mod 2 ^ 64 - 2 ^ 63"

text \<open>\<open>fmt.Sprintf("%d", n)\<close>.\<close>

fun nat_to_string :: "nat \<Rightarrow> string" where
  "nat_to_string n =
     (if n < 10 then [''0123456789'' ! n]
      else nat_to_string (n div 10) @ [''0123456789'' ! (n mod 10)])"

declare nat_to_string.simps [simp del]

definition itoa :: "int \<Rightarrow> string" where
  "itoa n = (if n < 0 then CHR ''-'' # nat_to_string (nat (- n)) else nat_to_string (nat n))"

definition dec_val :: "char \<Rightarrow> int option" where
  "dec_val ch =
     (let v = (of_char ch :: nat)
      in if 48 \<le> v \<and> v \<le> 57 then Some (int v - 48) else None)"

definition hex_val :: "char \<Rightarrow> int option" where
  "hex_val ch =
     (let v = (of_char ch :: nat)
      in if 48 \<le> v \<and> v \<le> 57 then Some (int v - 48)
         else if 97 \<le> v \<and> v \<le> 102 then Some (int v - 87)
         else if 65 \<le> v \<and> v \<le> 70 then Some (int v - 55)
         else None)"

definition lower :: "char \<Rightarrow> char" where
  "lower ch =
     (case map_of (zip ''ABCDEFGHIJKLMNOPQRSTUVWXYZ'' ''abcdefghijklmnopqrstuvwxyz'') ch of
        Some l \<Rightarrow> l
      | None \<Rightarrow> ch)"

text \<open>
  \<open>strconv.Atoi\<close>: an optional sign and one or more decimal digits; \<open>None\<close> stands
  for its error (bad syntax, or a value outside the 64-bit range).
\<close>

fun read_digits :: "string \<Rightarrow> int \<Rightarrow> int option" where
  "read_digits [] acc = Some acc"
| "read_digits (ch # cs) acc =
     (case dec_val ch of
        None \<Rightarrow> None
      | Some v \<Rightarrow> read_digits cs (acc * 10 + v))"

definition strip_sign :: "string \<Rightarrow> bool \<times> bool \<times> string" where
  "strip_sign s =
     (case s of
        [] \<Rightarrow> (False, False, [])
      | ch # cs \<Rightarrow>
          if ch = CHR ''-'' then (True, True, cs)
          else if ch = CHR ''+'' then (False, True, cs)
          else (False, False, s))"

definition Atoi :: "string \<Rightarrow> int option" where
  "Atoi s =
     (let (neg, signed, ds) = strip_sign s
      in if ds = [] then None
         else (case read_digits ds 0 of
                 None \<Rightarrow> None
               | Some v \<Rightarrow>
                   let n = (if neg then - v else v)
                   in if - (2 ^ 63) \<le> n \<and> n < 2 ^ 63 then Some n else None))"

section \<open>IEEE 754 binary64\<close>

text \<open>
  A \<open>float64\<close> is \<open>Finite m e\<close>, the number \<open>m * 2 ^ e\<close>, an infinity or a NaN. The sign
  of a zero is not kept: no operation below reads it. Every operation computes its exact
  result and rounds it to the nearest number with a 53-bit mantissa, ties to the even
  mantissa, as the hardware does.
\<close>

datatype float64 = Finite int int | PosInf | NegInf | NaN

definition valof :: "float64 \<Rightarrow> real" where
  "valof f =
     (case f of
        Finite m e \<Rightarrow> if 0 \<le> e then of_int (m * 2 ^ nat e) else of_int m / 2 ^ nat (- e)
      | _ \<Rightarrow> 0)"

definition is_finite :: "float64 \<Rightarrow> bool" where
  "is_finite f = (case f of Finite m e \<Rightarrow> True | _ \<Rightarrow> False)"

function bitlen :: "int \<Rightarrow> int" where
  "bitlen n = (if n \<le> 0 then 0 else 1 + bitlen (n div 2))"
  by pat_completeness auto
termination
  by (relation "measure nat") auto

declare bitlen.simps [simp del]

text \<open>\<open>scaled_round a d s\<close> is \<open>a / d * 2 ^ s\<close> rounded to an integer, ties to even.\<close>

definition scaled_round :: "int \<Rightarrow> int \<Rightarrow> int \<Rightarrow> int" where
  "scaled_round a d s =
     (let n = (if 0 \<le> s then a * 2 ^ nat s else a);
          m = (if 0 \<le> s then d else d * 2 ^ nat (- s));
          q = n div m;
          r = n mod m
      in if m < 2 * r \<or> (2 * r = m \<and> odd q) then q + 1 else q)"

text \<open>
  \<open>round64 neg a d x\<close> rounds \<open>a / d * 2 ^ x\<close> (with \<open>0 \<le> a\<close>, \<open>0 < d\<close>, negated if
  \<open>neg\<close>): the exponent \<open>e\<close> puts the mantissa in \<open>[2 ^ 52, 2 ^ 53)\<close> and is at least
  \<open>- 1074\<close> (subnormal numbers); a result of \<open>2 ^ 1024\<close> or more is an infinity.
\<close>

definition round64 :: "bool \<Rightarrow> int \<Rightarrow> int \<Rightarrow> int \<Rightarrow> float64" where
  "round64 neg a d x =
     (if a = 0 then Finite 0 0
      else
        let l = bitlen a - bitlen d;
            e0 = x + l - 53;
            e1 = (if (if 0 \<le> l then d * 2 ^ nat l \<le> a else d \<le> a * 2 ^ nat (- l))
                  then e0 + 1 else e0);
            e = max e1 (- 1074);
            m = scaled_round a d (x - e)
        in if 971 < e \<or> (e = 971 \<and> 2 ^ 53 \<le> m)
           then (if neg then NegInf else PosInf)
           else Finite (if neg then - m else m) e)"

text \<open>\<open>float64(n)\<close> of an integer.\<close>

definition float64_of_int :: "int \<Rightarrow> float64" where
  "float64_of_int n = round64 (n < 0) \<bar>n\<bar> 1 0"

fun fmul :: "float64 \<Rightarrow> float64 \<Rightarrow> float64" where
  "fmul (Finite m1 e1) (Finite m2 e2) =
     round64 ((m1 < 0) \<noteq> (m2 < 0)) \<bar>m1 * m2\<bar> 1 (e1 + e2)"
| "fmul NaN _ = NaN"
| "fmul _ NaN = NaN"
| "fmul (Finite m e) PosInf = (if m = 0 then NaN else if m < 0 then NegInf else PosInf)"
| "fmul (Finite m e) NegInf = (if m = 0 then NaN else if m < 0 then PosInf else NegInf)"
| "fmul PosInf (Finite m e) = (if m = 0 then NaN else if m < 0 then NegInf else PosInf)"
| "fmul NegInf (Finite m e) = (if m = 0 then NaN else if m < 0 then PosInf else NegInf)"
| "fmul PosInf PosInf = PosInf"
| "fmul PosInf NegInf = NegInf"
| "fmul NegInf PosInf = NegInf"
| "fmul NegInf NegInf = PosInf"

fun fdiv :: "float64 \<Rightarrow> float64 \<Rightarrow> float64" where
  "fdiv (Finite m1 e1) (Finite m2 e2) =
     (if m2 = 0 then (if m1 = 0 then NaN else if m1 < 0 then NegInf else PosInf)
      else round64 ((m1 < 0) \<noteq> (m2 < 0)) \<bar>m1\<bar> \<bar>m2\<bar> (e1 - e2))"
| "fdiv NaN _ = NaN"
| "fdiv _ NaN = NaN"
| "fdiv (Finite m e) PosInf = Finite 0 0"
| "fdiv (Finite m e) NegInf = Finite 0 0"
| "fdiv PosInf (Finite m e) = (if m < 0 then NegInf else PosInf)"
| "fdiv NegInf (Finite m e) = (if m < 0 then PosInf else NegInf)"
| "fdiv _ _ = NaN"

fun fadd :: "float64 \<Rightarrow> float64 \<Rightarrow> float64" where
  "fadd (Finite m1 e1) (Finite m2 e2) =
     (let e = min e1 e2;
          s = m1 * 2 ^ nat (e1 - e) + m2 * 2 ^ nat (e2 - e)
      in round64 (s < 0) \<bar>s\<bar> 1 e)"
| "fadd NaN _ = NaN"
| "fadd _ NaN = NaN"
| "fadd PosInf NegInf = NaN"
| "fadd NegInf PosInf = NaN"
| "fadd PosInf _ = PosInf"
| "fadd NegInf _ = NegInf"
| "fadd _ PosInf = PosInf"
| "fadd _ NegInf = NegInf"

text \<open>\<open>a > b\<close>; a comparison with a NaN is false.\<close>

fun fgt :: "float64 \<Rightarrow> float64 \<Rightarrow> bool" where
  "fgt (Finite m1 e1) (Finite m2 e2) =
     (let e = min e1 e2 in m2 * 2 ^ nat (e2 - e) < m1 * 2 ^ nat (e1 - e))"
| "fgt NaN _ = False"
| "fgt _ NaN = False"
| "fgt PosInf PosInf = False"
| "fgt PosInf _ = True"
| "fgt _ PosInf = False"
| "fgt NegInf _ = False"
| "fgt _ NegInf = True"

text \<open>\<open>math.Ceil\<close>.\<close>

fun Ceil :: "float64 \<Rightarrow> float64" where
  "Ceil (Finite m e) = (if 0 \<le> e then Finite m e else Finite (- ((- m) div 2 ^ nat (- e))) 0)"
| "Ceil f = f"

text \<open>
  The conversions \<open>int(f)\<close> and \<open>int32(f)\<close> discard the fraction. Where the truncated
  value does not fit the integer type, and for infinities and NaN, Go leaves the result
  to the implementation: \<open>None\<close>.
\<close>

definition trunc_float64 :: "float64 \<Rightarrow> int option" where
  "trunc_float64 f =
     (case f of
        Finite m e \<Rightarrow> Some (if 0 \<le> e then m * 2 ^ nat e else m sdiv 2 ^ nat (- e))
      | _ \<Rightarrow> None)"

definition int_of_float64 :: "float64 \<Rightarrow> int option" where
  "int_of_float64 f =
     (case trunc_float64 f of
        None \<Rightarrow> None
      | Some v \<Rightarrow> if - (2 ^ 63) \<le> v \<and> v < 2 ^ 63 then Some v else None)"

definition int32_of_float64 :: "float64 \<Rightarrow> int option" where
  "int32_of_float64 f =
     (case trunc_float64 f of
        None \<Rightarrow> None
      | Some v \<Rightarrow> if - (2 ^ 31) \<le> v \<and> v < 2 ^ 31 then Some v else None)"

subsection \<open>strconv.ParseFloat and strconv.FormatFloat\<close>

datatype parse_error = ErrSyntax | ErrRange

text \<open>The special values: \<open>inf\<close> and \<open>infinity\<close> with an optional sign, and \<open>nan\<close>.\<close>

definition special :: "string \<Rightarrow> float64 option" where
  "special s =
     (let (neg, signed, t) = strip_sign s;
          lt = map lower t
      in if lt = ''inf'' \<or> lt = ''infinity'' then Some (if neg then NegInf else PosInf)
         else if \<not> signed \<and> lt = ''nan'' then Some NaN
         else None)"

text \<open>
  The mantissa: digits (hexadecimal ones after a \<open>0x\<close> prefix), underscores and at most
  one point. The result is the mantissa as an integer, the number of digits after the
  point, whether a digit was seen, and the rest of the string.
\<close>

fun read_mantissa ::
  "bool \<Rightarrow> string \<Rightarrow> int \<Rightarrow> int \<Rightarrow> bool \<Rightarrow> bool \<Rightarrow> int \<times> int \<times> bool \<times> string" where
  "read_mantissa hex [] m fd dot dig = (m, fd, dig, [])"
| "read_mantissa hex (ch # cs) m fd dot dig =
     (if ch = CHR ''_'' then read_mantissa hex cs m fd dot dig
      else if ch = CHR ''.'' then
        (if dot then (m, fd, dig, ch # cs) else read_mantissa hex cs m fd True dig)
      else
        (case (if hex then hex_val ch else dec_val ch) of
           Some v \<Rightarrow>
             read_mantissa hex cs (m * (if hex then 16 else 10) + v)
               (if dot then fd + 1 else fd) dot True
         | None \<Rightarrow> (m, fd, dig, ch # cs)))"

fun read_exp_digits :: "string \<Rightarrow> int \<Rightarrow> int option" where
  "read_exp_digits [] e = Some e"
| "read_exp_digits (ch # cs) e =
     (if ch = CHR ''_'' then read_exp_digits cs e
      else
        (case dec_val ch of
           None \<Rightarrow> None
         | Some v \<Rightarrow> read_exp_digits cs (if e < 10000 then e * 10 + v else e)))"

text \<open>
  The exponent, which must end the string: \<open>e\<close> (or \<open>p\<close> after a hexadecimal
  mantissa, where it is required), an optional sign, a digit, then digits and
  underscores.
\<close>

definition read_exponent :: "bool \<Rightarrow> string \<Rightarrow> int option" where
  "read_exponent hex rest =
     (case rest of
        [] \<Rightarrow> if hex then None else Some 0
      | ch # cs \<Rightarrow>
          if lower ch = (if hex then CHR ''p'' else CHR ''e'') then
            (let (neg, signed, ds) = strip_sign cs
             in case ds of
                  [] \<Rightarrow> None
                | d # _ \<Rightarrow>
                    if dec_val d = None then None
                    else map_option (\<lambda>e. if neg then - e else e) (read_exp_digits ds 0))
          else None)"

text \<open>An underscore may only separate digits, or a base prefix from a digit.\<close>

fun underscoreOK_loop :: "bool \<Rightarrow> char \<Rightarrow> string \<Rightarrow> bool" where
  "underscoreOK_loop hex i [] = (i \<noteq> CHR ''_'')"
| "underscoreOK_loop hex i (ch # cs) =
     (if dec_val ch \<noteq> None \<or> (hex \<and> hex_val ch \<noteq> None)
      then underscoreOK_loop hex CHR ''0'' cs
      else if ch = CHR ''_''
      then (if i \<noteq> CHR ''0'' then False else underscoreOK_loop hex CHR ''_'' cs)
      else if i = CHR ''_'' then False
      else underscoreOK_loop hex CHR ''!'' cs)"

definition underscoreOK :: "string \<Rightarrow> bool" where
  "underscoreOK s =
     (let (neg, signed, t) = strip_sign s
      in case t of
           a # b # cs \<Rightarrow>
             if a = CHR ''0'' \<and> List.member ''box'' (lower b)
             then underscoreOK_loop (lower b = CHR ''x'') CHR ''0'' cs
             else underscoreOK_loop False CHR ''^'' t
         | _ \<Rightarrow> underscoreOK_loop False CHR ''^'' t)"

definition ParseFloat :: "string \<Rightarrow> parse_error + float64" where
  "ParseFloat s =
     (case special s of
        Some f \<Rightarrow> Inr f
      | None \<Rightarrow>
          let (neg, signed, t) = strip_sign s;
              hex = (case t of
                       a # b # c # cs \<Rightarrow> a = CHR ''0'' \<and> lower b = CHR ''x''
                     | _ \<Rightarrow> False);
              (m, fd, dig, rest) =
                 read_mantissa hex (if hex then drop 2 t else t) 0 0 False False
          in if \<not> dig then Inl ErrSyntax
             else
               (case read_exponent hex rest of
                  None \<Rightarrow> Inl ErrSyntax
                | Some e \<Rightarrow>
                    if List.member s CHR ''_'' \<and> \<not> underscoreOK s then Inl ErrSyntax
                    else
                      let f = (if hex then round64 neg m 1 (e - 4 * fd)
                               else if fd \<le> e then round64 neg (m * 10 ^ nat (e - fd)) 1 0
                               else round64 neg m (10 ^ nat (fd - e)) 0)
                      in if is_finite f then Inr f else Inl ErrRange))"

text \<open>
  \<open>strconv.FormatFloat(f, 'f', p, 64)\<close> and the verb \<open>%.pf\<close>: \<open>p\<close> digits after
  the point, ties to even.
\<close>

definition pad_zeros :: "nat \<Rightarrow> string \<Rightarrow> string" where
  "pad_zeros p s = replicate (p - length s) CHR ''0'' @ s"

definition FormatFloat_f :: "nat \<Rightarrow> float64 \<Rightarrow> string" where
  "FormatFloat_f p f =
     (case f of
        NaN \<Rightarrow> ''NaN''
      | PosInf \<Rightarrow> ''+Inf''
      | NegInf \<Rightarrow> ''-Inf''
      | Finite m e \<Rightarrow>
          let q = scaled_round (\<bar>m\<bar> * 10 ^ p) 1 e
          in (if m < 0 then ''-'' else []) @ nat_to_string (nat (q div 10 ^ p))
               @ (if p = 0 then [] else CHR ''.'' # pad_zeros p (nat_to_string (nat (q mod 10 ^ p)))))"

text \<open>The floating-point constant written \<open>a / 10 ^ k\<close> in decimal.\<close>

definition float_lit :: "int \<Rightarrow> nat \<Rightarrow> float64" where
  "float_lit a k = round64 False a (10 ^ k) 0"

section \<open>Objects and the load specification\<close>

text \<open>
  The metadata of an object, and the objects of the cluster other than the load
  specification itself. The synthetic payload of an object (data blobs, ports, image
  tags, event texts) is random content that no operation reads back; it is not part of
  the record. Times are Unix nanoseconds, durations are nanoseconds.
\<close>

record ObjectMeta =
  Name :: string
  Namespace :: string
  Labels :: string_map
  Annotations :: string_map
  CreationTimestamp :: int
  ResourceVersion :: nat

record object = ObjectMeta +
  Kind :: kind
  Phase :: string

record LoadProfile =
  Profile :: string
  NamespacesPerNode :: "string option"
  APICallRate :: "int option"
  APICallRateStatic :: "int option"
  APICallRatePerNode :: "int option"

record NamespaceConfig =
  NamespacePrefix :: string
  NamespaceLabels :: string_map
  NamespaceAnnotations :: string_map

record AnnotationChurnConfig =
  AnnotationChurnEnabled :: bool
  NetworkingAnnotations :: bool
  MachineConfigAnnotations :: bool
  UpdateIntervalMin :: int
  UpdateIntervalMax :: int

record ResourceTypeConfig =
  Enabled :: bool
  Count :: int
  NamespaceInterval :: int

record EventTypeConfig =
  EventType :: string
  Reason :: string
  Message :: string
  Weight :: int

record EventsConfig =
  EventsEnabled :: bool
  EventsPerNodePerHour :: int
  EventTypes :: "EventTypeConfig list"

record ResourceChurnConfig =
  ConfigMaps :: ResourceTypeConfig
  Secrets :: ResourceTypeConfig
  Routes :: ResourceTypeConfig
  ImageStreams :: ResourceTypeConfig
  BuildConfigs :: ResourceTypeConfig
  Events :: EventsConfig

record CleanupConfig =
  CleanupEnabled :: bool
  GracefulDeletes :: bool
  CleanupDelaySeconds :: int

record ScaleLoadConfigSpec =
  SpecEnabled :: bool
  KwokNodeSelector :: string_map
  LoadProfile :: LoadProfile
  NamespaceConfig :: NamespaceConfig
  AnnotationChurn :: AnnotationChurnConfig
  ResourceChurn :: ResourceChurnConfig
  CleanupConfig :: CleanupConfig

record ResourceCounts =
  ConfigMapsTotal :: int
  SecretsTotal :: int
  RoutesTotal :: int
  ImageStreamsTotal :: int
  BuildConfigsTotal :: int
  EventsTotal :: int

record LoadGenerationMetrics =
  APICallsPerMinute :: string
  AverageReconcileTime :: string
  ErrorRate :: string
  ResourceCreationRate :: string
  ResourceUpdateRate :: string
  ResourceDeletionRate :: string

datatype ConditionStatus = ConditionTrue | ConditionFalse

record Condition =
  ConditionType :: string
  Status :: ConditionStatus
  LastTransitionTime :: int
  ConditionReason :: string
  ConditionMessage :: string

record ScaleLoadConfigStatus =
  ObservedGeneration :: int
  KwokNodeCount :: int
  GeneratedNamespaces :: int
  TotalResources :: ResourceCounts
  LastReconcileTime :: "int option"
  Conditions :: "Condition list"
  Metrics :: LoadGenerationMetrics

record ScaleLoadConfig = ObjectMeta +
  Generation :: int
  Finalizers :: "string list"
  DeletionTimestamp :: "int option"
  Spec :: ScaleLoadConfigSpec
  ConfigStatus :: ScaleLoadConfigStatus

section \<open>The cluster and the API client\<close>

text \<open>
  The requests of the generic client, as issued: kind, namespace and name identify an
  object; a delete carries its grace period in seconds, if one was given. The load
  specification has requests of its own.
\<close>

datatype request =
  GetReq kind string string
  | ListReq kind string string_map
  | CreateReq object
  | UpdateReq object
  | DeleteReq kind string string "int option"
  | GetConfigReq
  | UpdateConfigReq ScaleLoadConfig
  | StatusUpdateReq ScaleLoadConfig

record ResourceManager =
  rm_namespace :: string
  rm_associatedNode :: string
  rm_lastUpdate :: int

text \<open>The in-memory state of the reconciler; \<open>None\<close> is the zero time.\<close>

record reconciler =
  lastReconcileTime :: "int option"
  resourceManagers :: "(string \<times> ResourceManager) list"
  apiCallCounter :: int
  lastRateLimitReset :: "int option"
  ErrorCount :: nat
  KwokNodeCountGauge :: int
  GeneratedNamespacesGauge :: int

text \<open>
  The cluster and the rest of the environment of one reconciler:
  \<^item> the objects, in the order the store lists them, and the load specification the
    reconciler is asked about (\<open>None\<close> once it is deleted);
  \<^item> the log of every request, with the error it returned;
  \<^item> the faults to come: the head of \<open>faults\<close> decides the next request, and an empty
    list injects none;
  \<^item> the outcomes to come of the random tests \<open>rand.Float64() < p\<close> (\<open>coins\<close>) and of
    the random numbers (\<open>draws\<close>); an exhausted list gives \<open>False\<close> and \<open>0\<close>;
  \<^item> the orders to come in which \<open>sort.Slice\<close> leaves the slices it sorts
    (\<open>orders\<close>): the library sorts, but does not say where elements that compare
    equal end up;
  \<^item> the wall clock, and the durations slept so far;
  \<^item> the memory of the reconciler.
\<close>

record world =
  objects :: "object list"
  config :: "ScaleLoadConfig option"
  log :: "(request \<times> api_error option) list"
  faults :: "api_error option list"
  coins :: "bool list"
  draws :: "nat list"
  orders :: "object list list"
  clock :: int
  sleeps :: "int list"
  reconciler :: reconciler

definition same_key :: "kind \<Rightarrow> string \<Rightarrow> string \<Rightarrow> object \<Rightarrow> bool" where
  "same_key k ns n ob \<longleftrightarrow> Kind ob = k \<and> Namespace ob = ns \<and> Name ob = n"

definition next_fault :: "world \<Rightarrow> api_error option \<times> world" where
  "next_fault c =
     (case faults c of
        [] \<Rightarrow> (None, c)
      | f # fs \<Rightarrow> (f, c\<lparr>faults := fs\<rparr>))"

definition record_req :: "request \<Rightarrow> api_error option \<Rightarrow> world \<Rightarrow> world" where
  "record_req rq res c = c\<lparr>log := log c @ [(rq, res)]\<rparr>"

definition matches_labels :: "string_map \<Rightarrow> object \<Rightarrow> bool" where
  "matches_labels sel ob \<longleftrightarrow> list_all (\<lambda>(k, v). map_of (Labels ob) k = Some v) sel"

definition err_of :: "api_error + 'a \<Rightarrow> api_error option" where
  "err_of res = (case res of Inl e \<Rightarrow> Some e | Inr _ \<Rightarrow> None)"

definition client_Get ::
  "kind \<Rightarrow> string \<Rightarrow> string \<Rightarrow> world \<Rightarrow> (api_error + object) \<times> world" where
  "client_Get k ns n c =
     (let (f, c1) = next_fault c;
          res = (case f of
                   Some e \<Rightarrow> Inl e
                 | None \<Rightarrow>
                     (case filter (same_key k ns n) (objects c1) of
                        [] \<Rightarrow> Inl NotFound
                      | ob # _ \<Rightarrow> Inr ob))
      in (res, record_req (GetReq k ns n) (err_of res) c1))"

text \<open>A list request with an empty namespace lists across namespaces.\<close>

definition client_List ::
  "kind \<Rightarrow> string \<Rightarrow> string_map \<Rightarrow> world \<Rightarrow> (api_error + object list) \<times> world" where
  "client_List k ns sel c =
     (let (f, c1) = next_fault c;
          res = (case f of
                   Some e \<Rightarrow> Inl e
                 | None \<Rightarrow>
                     Inr (filter (\<lambda>ob. Kind ob = k \<and> (ns = [] \<or> Namespace ob = ns)
                                        \<and> matches_labels sel ob) (objects c1)))
      in (res, record_req (ListReq k ns sel) (err_of res) c1))"

definition client_Create :: "object \<Rightarrow> world \<Rightarrow> api_error option \<times> world" where
  "client_Create ob c =
     (let (f, c1) = next_fault c;
          res = (case f of
                   Some e \<Rightarrow> Some e
                 | None \<Rightarrow>
                     if list_ex (same_key (Kind ob) (Namespace ob) (Name ob)) (objects c1)
                     then Some AlreadyExists else None);
          c2 = (if res = None
                then c1\<lparr>objects := objects c1 @ [ob\<lparr>CreationTimestamp := clock c1\<rparr>]\<rparr>
                else c1)
      in (res, record_req (CreateReq ob) res c2))"

text \<open>An update is refused with a conflict unless it carries the stored resource version.\<close>

definition client_Update :: "object \<Rightarrow> world \<Rightarrow> api_error option \<times> world" where
  "client_Update ob c =
     (let (f, c1) = next_fault c;
          res = (case f of
                   Some e \<Rightarrow> Some e
                 | None \<Rightarrow>
                     (case filter (same_key (Kind ob) (Namespace ob) (Name ob)) (objects c1) of
                        [] \<Rightarrow> Some NotFound
                      | cur # _ \<Rightarrow>
                          if ResourceVersion cur = ResourceVersion ob then None
                          else Some Conflict));
          c2 = (if res = None
                then c1\<lparr>objects :=
                       map (\<lambda>x. if same_key (Kind ob) (Namespace ob) (Name ob) x
                                then ob\<lparr>ResourceVersion := Suc (ResourceVersion ob)\<rparr> else x)
                           (objects c1)\<rparr>
                else c1)
      in (res, record_req (UpdateReq ob) res c2))"

definition client_Delete ::
  "kind \<Rightarrow> string \<Rightarrow> string \<Rightarrow> int option \<Rightarrow> world \<Rightarrow> api_error option \<times> world" where
  "client_Delete k ns n grace c =
     (let (f, c1) = next_fault c;
          res = (case f of
                   Some e \<Rightarrow> Some e
                 | None \<Rightarrow>
                     if list_ex (same_key k ns n) (objects c1) then None
                     else Some NotFound);
          c2 = (if res = None
                then c1\<lparr>objects := filter (\<lambda>x. \<not> same_key k ns n x) (objects c1)\<rparr>
                else c1)
      in (res, record_req (DeleteReq k ns n grace) res c2))"

definition client_GetConfig :: "world \<Rightarrow> (api_error + ScaleLoadConfig) \<times> world" where
  "client_GetConfig c =
     (let (f, c1) = next_fault c;
          res = (case f of
                   Some e \<Rightarrow> Inl e
                 | None \<Rightarrow> (case config c1 of None \<Rightarrow> Inl NotFound | Some cfg \<Rightarrow> Inr cfg))
      in (res, record_req GetConfigReq (err_of res) c1))"

text \<open>
  \<open>Update\<close> of the load specification writes metadata and spec and keeps the stored
  status; \<open>Status().Update\<close> writes the status and keeps the rest.
\<close>

definition client_UpdateConfig :: "ScaleLoadConfig \<Rightarrow> world \<Rightarrow> api_error option \<times> world" where
  "client_UpdateConfig cfg c =
     (let (f, c1) = next_fault c;
          res = (case f of
                   Some e \<Rightarrow> Some e
                 | None \<Rightarrow>
                     (case config c1 of
                        None \<Rightarrow> Some NotFound
                      | Some cur \<Rightarrow>
                          if ResourceVersion cur = ResourceVersion cfg then None
                          else Some Conflict));
          c2 = (case (res, config c1) of
                  (None, Some cur) \<Rightarrow>
                    c1\<lparr>config := Some (cfg\<lparr>ResourceVersion := Suc (ResourceVersion cfg),
                                              ConfigStatus := ConfigStatus cur\<rparr>)\<rparr>
                | _ \<Rightarrow> c1)
      in (res, record_req (UpdateConfigReq cfg) res c2))"

definition client_StatusUpdate :: "ScaleLoadConfig \<Rightarrow> world \<Rightarrow> api_error option \<times> world" where
  "client_StatusUpdate cfg c =
     (let (f, c1) = next_fault c;
          res = (case f of
                   Some e \<Rightarrow> Some e
                 | None \<Rightarrow>
                     (case config c1 of
                        None \<Rightarrow> Some NotFound
                      | Some cur \<Rightarrow>
                          if ResourceVersion cur = ResourceVersion cfg then None
                          else Some Conflict));
          c2 = (case (res, config c1) of
                  (None, Some cur) \<Rightarrow>
                    c1\<lparr>config := Some (cur\<lparr>ResourceVersion := Suc (ResourceVersion cur),
                                              ConfigStatus := ConfigStatus cfg\<rparr>)\<rparr>
                | _ \<Rightarrow> c1)
      in (res, record_req (StatusUpdateReq cfg) res c2))"

subsection \<open>Randomness and time\<close>

definition flip :: "world \<Rightarrow> bool \<times> world" where
  "flip c = (case coins c of [] \<Rightarrow> (False, c) | b # bs \<Rightarrow> (b, c\<lparr>coins := bs\<rparr>))"

text \<open>\<open>rand.Intn(n)\<close> for \<open>0 < n\<close>.\<close>

definition Intn :: "nat \<Rightarrow> world \<Rightarrow> nat \<times> world" where
  "Intn n c = (case draws c of [] \<Rightarrow> (0, c) | d # ds \<Rightarrow> (d mod n, c\<lparr>draws := ds\<rparr>))"

text \<open>
  A time is written into a label or an annotation as its Unix seconds in decimal, in
  place of the RFC 3339 calendar layout; \<open>parseTime\<close> reads it back.
\<close>

definition formatTime :: "int \<Rightarrow> string" where
  "formatTime t = itoa (t div 1000000000)"

definition parseTime :: "string \<Rightarrow> int option" where
  "parseTime s = map_option (\<lambda>n. n * 1000000000) (Atoi s)"

text \<open>
  The outcome of a function: it returns, it panics, or it reaches a conversion whose
  result the Go specification leaves to the implementation (\<open>Undef\<close>).
\<close>

datatype 'a res = Ok 'a | Panic | Undef

definition then_res ::
  "'a res \<times> world \<Rightarrow> ('a \<Rightarrow> world \<Rightarrow> 'b res \<times> world) \<Rightarrow> 'b res \<times> world" where
  "then_res r f =
     (case r of
        (Ok x, c) \<Rightarrow> f x c
      | (Panic, c) \<Rightarrow> (Panic, c)
      | (Undef, c) \<Rightarrow> (Undef, c))"


section \<open>Resources within a namespace\<close>

definition checkNamespaceStatus :: "string \<Rightarrow> world \<Rightarrow> (bool \<times> string) \<times> world" where
  "checkNamespaceStatus namespaceName c =
     (case client_Get KNamespace [] namespaceName c of
        (Inl e, c') \<Rightarrow> ((False, ''NotFound''), c')
      | (Inr ns, c') \<Rightarrow>
          ((Phase ns = ''Active'' \<or> Phase ns = [],
            if Phase ns = [] then ''Unknown'' else Phase ns), c'))"

definition isNamespaceReady :: "string \<Rightarrow> world \<Rightarrow> bool \<times> world" where
  "isNamespaceReady namespaceName c =
     (case checkNamespaceStatus namespaceName c of ((ready, phase), c') \<Rightarrow> (ready, c'))"

definition shouldCreateResourceForNamespace :: "object \<Rightarrow> int \<Rightarrow> bool" where
  "shouldCreateResourceForNamespace namespace interval =
     (if interval \<le> 1 then True
      else
        (case map_of (Labels namespace) ''scale.openshift.io/namespace-index'' of
           None \<Rightarrow> True
         | Some indexStr \<Rightarrow>
             (case Atoi indexStr of
                None \<Rightarrow> True
              | Some index \<Rightarrow> index smod interval = 0)))"

subsection \<open>Generated objects\<close>

definition new_object :: "kind \<Rightarrow> string \<Rightarrow> string \<Rightarrow> string_map \<Rightarrow> object" where
  "new_object k ns n ls =
     \<lparr>Name = n, Namespace = ns, Labels = ls, Annotations = [], CreationTimestamp = 0,
      ResourceVersion = 0, Kind = k, Phase = []\<rparr>"

definition generateConfigMap :: "ScaleLoadConfig \<Rightarrow> string \<Rightarrow> int \<Rightarrow> object" where
  "generateConfigMap cfg namespace index =
     new_object KConfigMap namespace (''load-config-'' @ itoa index)
       [(''scale.openshift.io/managed-by'', Name cfg),
        (''scale.openshift.io/resource-type'', ''configmap''),
        (''scale.openshift.io/created-by'', ''sim-operator''),
        (''app.kubernetes.io/name'', ''load-app-'' @ itoa index),
        (''app.kubernetes.io/component'', ''configuration'')]"

definition generateSecret :: "ScaleLoadConfig \<Rightarrow> string \<Rightarrow> int \<Rightarrow> object" where
  "generateSecret cfg namespace index =
     new_object KSecret namespace (''load-secret-'' @ itoa index)
       [(''scale.openshift.io/managed-by'', Name cfg),
        (''scale.openshift.io/resource-type'', ''secret''),
        (''scale.openshift.io/created-by'', ''sim-operator''),
        (''app.kubernetes.io/name'', ''load-app-'' @ itoa index),
        (''app.kubernetes.io/component'', ''credentials'')]"

definition generateRoute :: "ScaleLoadConfig \<Rightarrow> string \<Rightarrow> int \<Rightarrow> object" where
  "generateRoute cfg namespace index =
     new_object KRoute namespace (''load-route-'' @ itoa index)
       [(''scale.openshift.io/managed-by'', Name cfg),
        (''scale.openshift.io/resource-type'', ''route''),
        (''scale.openshift.io/created-by'', ''sim-operator''),
        (''app.kubernetes.io/name'', ''load-app-'' @ itoa index),
        (''app.kubernetes.io/component'', ''frontend'')]"

definition generateService :: "ScaleLoadConfig \<Rightarrow> string \<Rightarrow> int \<Rightarrow> object" where
  "generateService cfg namespace index =
     new_object KService namespace (''load-service-'' @ itoa index)
       [(''scale.openshift.io/managed-by'', Name cfg),
        (''scale.openshift.io/resource-type'', ''service''),
        (''scale.openshift.io/created-by'', ''sim-operator''),
        (''app.kubernetes.io/name'', ''load-app-'' @ itoa index),
        (''app.kubernetes.io/component'', ''backend'')]"

definition generateImageStream :: "ScaleLoadConfig \<Rightarrow> string \<Rightarrow> int \<Rightarrow> object" where
  "generateImageStream cfg namespace index =
     new_object KImageStream namespace (''load-image-'' @ itoa index)
       [(''scale.openshift.io/managed-by'', Name cfg),
        (''scale.openshift.io/resource-type'', ''imagestream''),
        (''scale.openshift.io/created-by'', ''sim-operator''),
        (''app.kubernetes.io/name'', ''load-app-'' @ itoa index),
        (''app.kubernetes.io/component'', ''image'')]"

definition generateBuildConfig :: "ScaleLoadConfig \<Rightarrow> string \<Rightarrow> int \<Rightarrow> object" where
  "generateBuildConfig cfg namespace index =
     new_object KBuildConfig namespace (''load-build-'' @ itoa index)
       [(''scale.openshift.io/managed-by'', Name cfg),
        (''scale.openshift.io/resource-type'', ''buildconfig''),
        (''scale.openshift.io/created-by'', ''sim-operator''),
        (''app.kubernetes.io/name'', ''load-app-'' @ itoa index),
        (''app.kubernetes.io/component'', ''build'')]"

subsection \<open>Churn\<close>

text \<open>
  \<open>performResourceChurn\<close>: each listed resource is, with the chance of one random
  test, stamped with two annotations and updated; a failed update is only logged. The
  result counts the updates that succeeded.
\<close>

fun performResourceChurn :: "object list \<Rightarrow> world \<Rightarrow> int \<times> world" where
  "performResourceChurn [] c = (0, c)"
| "performResourceChurn (resource # rest) c =
     (case flip c of
        (False, c1) \<Rightarrow> performResourceChurn rest c1
      | (True, c1) \<Rightarrow>
          (case Intn 1000 c1 of
             (n, c2) \<Rightarrow>
               (case client_Update
                       (resource\<lparr>Annotations :=
                          AList.update ''scale.openshift.io/churn-iteration'' (itoa (int n))
                            (AList.update ''scale.openshift.io/last-churn'' (formatTime (clock c2))
                               (Annotations resource))\<rparr>) c2 of
                  (Some e, c3) \<Rightarrow> performResourceChurn rest c3
                | (None, c3) \<Rightarrow>
                    (case performResourceChurn rest c3 of
                       (updatedCount, c4) \<Rightarrow> (int32 (updatedCount + 1), c4)))))"

subsection \<open>Convergence towards a target count\<close>

text \<open>
  The scale-up loop \<open>for i := int32(currentCount); i < targetCount; i++\<close> over its
  indices: the number of objects created, and the error that stopped the loop.
\<close>

fun createLoop :: "(int \<Rightarrow> object) \<Rightarrow> int list \<Rightarrow> world \<Rightarrow> (int \<times> api_error option) \<times> world" where
  "createLoop gen [] c = ((0, None), c)"
| "createLoop gen (i # is) c =
     (case client_Create (gen i) c of
        (Some e, c1) \<Rightarrow> ((0, Some e), c1)
      | (None, c1) \<Rightarrow>
          (case createLoop gen is c1 of
             ((created, err), c2) \<Rightarrow> ((created + 1, err), c2)))"

text \<open>
  The scale-down loop \<open>for i := int32(len(items)) - 1; i >= targetCount; i--\<close> over its
  indices: \<open>items[i]\<close> outside the slice panics.
\<close>

fun deleteLoop :: "object list \<Rightarrow> int list \<Rightarrow> world \<Rightarrow> (int \<times> api_error option) res \<times> world" where
  "deleteLoop items [] c = (Ok (0, None), c)"
| "deleteLoop items (i # is) c =
     (if i < 0 \<or> int (length items) \<le> i then (Panic, c)
      else
        (case client_Delete (Kind (items ! nat i)) (Namespace (items ! nat i))
                (Name (items ! nat i)) None c of
           (Some e, c1) \<Rightarrow> (Ok (0, Some e), c1)
         | (None, c1) \<Rightarrow>
             then_res (deleteLoop items is c1)
               (\<lambda>(deleted, err) c2. (Ok (deleted + 1, err), c2))))"

definition managed_selector :: "ScaleLoadConfig \<Rightarrow> string \<Rightarrow> string_map" where
  "managed_selector cfg resourceType =
     [(''scale.openshift.io/managed-by'', Name cfg),
      (''scale.openshift.io/resource-type'', resourceType)]"

definition manageConfigMaps ::
  "ScaleLoadConfig \<Rightarrow> string \<Rightarrow> int \<Rightarrow> world \<Rightarrow> (int \<times> error option) res \<times> world" where
  "manageConfigMaps cfg namespace targetCount c =
     (case client_List KConfigMap namespace (managed_selector cfg ''configmap'') c of
        (Inl e, c1) \<Rightarrow> (Ok (0, Some (Errorf ''failed to list ConfigMaps'' (ApiError e))), c1)
      | (Inr items, c1) \<Rightarrow>
          let currentCount = int32 (int (length items)) in
          (case (if currentCount < targetCount
                 then createLoop (generateConfigMap cfg namespace)
                        [currentCount..targetCount - 1] c1
                 else ((0, None), c1)) of
             ((created, Some e), c2) \<Rightarrow>
               (Ok (int32 (currentCount + created),
                    Some (Errorf ''failed to create ConfigMap'' (ApiError e))), c2)
           | ((created, None), c2) \<Rightarrow>
               then_res
                 (if currentCount > targetCount
                  then deleteLoop items (rev [targetCount..currentCount - 1]) c2
                  else (Ok (0, None), c2))
                 (\<lambda>(deleted, err) c3.
                    case err of
                      Some e \<Rightarrow>
                        (Ok (int32 (currentCount - deleted),
                             Some (Errorf ''failed to delete ConfigMap'' (ApiError e))), c3)
                    | None \<Rightarrow>
                        (case performResourceChurn items c3 of
                           (updatedCount, c4) \<Rightarrow> (Ok (targetCount, None), c4)))))"

definition manageSecrets ::
  "ScaleLoadConfig \<Rightarrow> string \<Rightarrow> int \<Rightarrow> world \<Rightarrow> (int \<times> error option) res \<times> world" where
  "manageSecrets cfg namespace targetCount c =
     (case client_List KSecret namespace (managed_selector cfg ''secret'') c of
        (Inl e, c1) \<Rightarrow> (Ok (0, Some (Errorf ''failed to list Secrets'' (ApiError e))), c1)
      | (Inr items, c1) \<Rightarrow>
          let currentCount = int32 (int (length items)) in
          (case (if currentCount < targetCount
                 then createLoop (generateSecret cfg namespace)
                        [currentCount..targetCount - 1] c1
                 else ((0, None), c1)) of
             ((created, Some e), c2) \<Rightarrow>
               (Ok (int32 (currentCount + created),
                    Some (Errorf ''failed to create Secret'' (ApiError e))), c2)
           | ((created, None), c2) \<Rightarrow>
               then_res
                 (if currentCount > targetCount
                  then deleteLoop items (rev [targetCount..currentCount - 1]) c2
                  else (Ok (0, None), c2))
                 (\<lambda>(deleted, err) c3.
                    case err of
                      Some e \<Rightarrow>
                        (Ok (int32 (currentCount - deleted),
                             Some (Errorf ''failed to delete Secret'' (ApiError e))), c3)
                    | None \<Rightarrow>
                        (case performResourceChurn items c3 of
                           (updatedCount, c4) \<Rightarrow> (Ok (targetCount, None), c4)))))"

definition manageImageStreams ::
  "ScaleLoadConfig \<Rightarrow> string \<Rightarrow> int \<Rightarrow> world \<Rightarrow> (int \<times> error option) res \<times> world" where
  "manageImageStreams cfg namespace targetCount c =
     (case client_List KImageStream namespace (managed_selector cfg ''imagestream'') c of
        (Inl e, c1) \<Rightarrow> (Ok (0, Some (Errorf ''failed to list ImageStreams'' (ApiError e))), c1)
      | (Inr items, c1) \<Rightarrow>
          let currentCount = int32 (int (length items)) in
          (case (if currentCount < targetCount
                 then createLoop (generateImageStream cfg namespace)
                        [currentCount..targetCount - 1] c1
                 else ((0, None), c1)) of
             ((created, Some e), c2) \<Rightarrow>
               (Ok (currentCount, Some (Errorf ''failed to create ImageStream'' (ApiError e))), c2)
           | ((created, None), c2) \<Rightarrow>
               then_res
                 (if currentCount > targetCount
                  then deleteLoop items (rev [targetCount..currentCount - 1]) c2
                  else (Ok (0, None), c2))
                 (\<lambda>(deleted, err) c3.
                    case err of
                      Some e \<Rightarrow>
                        (Ok (currentCount,
                             Some (Errorf ''failed to delete ImageStream'' (ApiError e))), c3)
                    | None \<Rightarrow> (Ok (targetCount, None), c3))))"

definition manageBuildConfigs ::
  "ScaleLoadConfig \<Rightarrow> string \<Rightarrow> int \<Rightarrow> world \<Rightarrow> (int \<times> error option) res \<times> world" where
  "manageBuildConfigs cfg namespace targetCount c =
     (case client_List KBuildConfig namespace (managed_selector cfg ''buildconfig'') c of
        (Inl e, c1) \<Rightarrow> (Ok (0, Some (Errorf ''failed to list BuildConfigs'' (ApiError e))), c1)
      | (Inr items, c1) \<Rightarrow>
          let currentCount = int32 (int (length items)) in
          (case (if currentCount < targetCount
                 then createLoop (generateBuildConfig cfg namespace)
                        [currentCount..targetCount - 1] c1
                 else ((0, None), c1)) of
             ((created, Some e), c2) \<Rightarrow>
               (Ok (currentCount, Some (Errorf ''failed to create BuildConfig'' (ApiError e))), c2)
           | ((created, None), c2) \<Rightarrow>
               then_res
                 (if currentCount > targetCount
                  then deleteLoop items (rev [targetCount..currentCount - 1]) c2
                  else (Ok (0, None), c2))
                 (\<lambda>(deleted, err) c3.
                    case err of
                      Some e \<Rightarrow>
                        (Ok (currentCount,
                             Some (Errorf ''failed to delete BuildConfig'' (ApiError e))), c3)
                    | None \<Rightarrow> (Ok (targetCount, None), c3))))"

subsection \<open>Routes and their services\<close>

text \<open>
  The scale-up loop of \<open>manageRoutes\<close>: the service first, where "already exists" is
  not an error, then the route.
\<close>

fun createRoutesLoop ::
  "ScaleLoadConfig \<Rightarrow> string \<Rightarrow> int list \<Rightarrow> world \<Rightarrow> error option \<times> world" where
  "createRoutesLoop cfg namespace [] c = (None, c)"
| "createRoutesLoop cfg namespace (i # is) c =
     (case client_Create (generateService cfg namespace i) c of
        (serr, c1) \<Rightarrow>
          if serr \<noteq> None \<and> serr \<noteq> Some AlreadyExists
          then (Some (Errorf ''failed to create Service'' (ApiError (the serr))), c1)
          else
            (case client_Create (generateRoute cfg namespace i) c1 of
               (Some e, c2) \<Rightarrow> (Some (Errorf ''failed to create Route'' (ApiError e)), c2)
             | (None, c2) \<Rightarrow> createRoutesLoop cfg namespace is c2))"

text \<open>
  The scale-down loop of \<open>manageRoutes\<close>: the route at position \<open>i\<close> of the listing,
  then the service named after the position, where "not found" is not an error.
\<close>

fun deleteRoutesLoop ::
  "string \<Rightarrow> object list \<Rightarrow> int list \<Rightarrow> world \<Rightarrow> error option res \<times> world" where
  "deleteRoutesLoop namespace items [] c = (Ok None, c)"
| "deleteRoutesLoop namespace items (i # is) c =
     (if i < 0 \<or> int (length items) \<le> i then (Panic, c)
      else
        (case client_Delete (Kind (items ! nat i)) (Namespace (items ! nat i))
                (Name (items ! nat i)) None c of
           (Some e, c1) \<Rightarrow> (Ok (Some (Errorf ''failed to delete Route'' (ApiError e))), c1)
         | (None, c1) \<Rightarrow>
             (case client_Delete KService namespace (''load-service-'' @ itoa i) None c1 of
                (serr, c2) \<Rightarrow>
                  if serr \<noteq> None \<and> serr \<noteq> Some NotFound
                  then (Ok (Some (Errorf ''failed to delete Service'' (ApiError (the serr)))), c2)
                  else deleteRoutesLoop namespace items is c2)))"

definition manageRoutes ::
  "ScaleLoadConfig \<Rightarrow> string \<Rightarrow> int \<Rightarrow> world \<Rightarrow> (int \<times> error option) res \<times> world" where
  "manageRoutes cfg namespace targetCount c =
     (case client_List KRoute namespace (managed_selector cfg ''route'') c of
        (Inl e, c1) \<Rightarrow> (Ok (0, Some (Errorf ''failed to list Routes'' (ApiError e))), c1)
      | (Inr items, c1) \<Rightarrow>
          let currentCount = int32 (int (length items)) in
          (case (if currentCount < targetCount
                 then createRoutesLoop cfg namespace [currentCount..targetCount - 1] c1
                 else (None, c1)) of
             (Some err, c2) \<Rightarrow> (Ok (currentCount, Some err), c2)
           | (None, c2) \<Rightarrow>
               then_res
                 (if currentCount > targetCount
                  then deleteRoutesLoop namespace items (rev [targetCount..currentCount - 1]) c2
                  else (Ok None, c2))
                 (\<lambda>err c3.
                    case err of
                      Some e \<Rightarrow> (Ok (currentCount, Some e), c3)
                    | None \<Rightarrow> (Ok (targetCount, None), c3))))"

subsection \<open>Events\<close>

text \<open>
  \<open>Time.Sub\<close> saturates at the bounds of a duration; \<open>Duration.Hours\<close> and
  \<open>Duration.Minutes\<close> add the whole units to the fraction of the rest.
\<close>

definition time_Sub :: "int \<Rightarrow> int \<Rightarrow> int" where
  "time_Sub t u = max (- (2 ^ 63)) (min (2 ^ 63 - 1) (t - u))"

definition Hours :: "int \<Rightarrow> float64" where
  "Hours d =
     fadd (float64_of_int (d sdiv 3600000000000))
          (fdiv (float64_of_int (d smod 3600000000000)) (Finite 3600000000000 0))"

definition Minutes :: "int \<Rightarrow> float64" where
  "Minutes d =
     fadd (float64_of_int (d sdiv 60000000000))
          (fdiv (float64_of_int (d smod 60000000000)) (Finite 60000000000 0))"

definition defaultEventTypes :: "EventTypeConfig list" where
  "defaultEventTypes =
     [\<lparr>EventType = ''Normal'', Reason = ''Started'',
       Message = ''Container started successfully'', Weight = 30\<rparr>,
      \<lparr>EventType = ''Normal'', Reason = ''Created'',
       Message = ''Created container %s'', Weight = 25\<rparr>,
      \<lparr>EventType = ''Normal'', Reason = ''Pulled'',
       Message = ''Successfully pulled image'', Weight = 20\<rparr>,
      \<lparr>EventType = ''Warning'', Reason = ''FailedMount'',
       Message = ''Unable to mount volumes'', Weight = 10\<rparr>,
      \<lparr>EventType = ''Warning'', Reason = ''FailedScheduling'',
       Message = ''Pod scheduling failed'', Weight = 8\<rparr>,
      \<lparr>EventType = ''Normal'', Reason = ''Scheduled'',
       Message = ''Successfully assigned pod'', Weight = 7\<rparr>]"

fun pickWeighted :: "EventTypeConfig list \<Rightarrow> int \<Rightarrow> int \<Rightarrow> EventTypeConfig option" where
  "pickWeighted [] currentWeight randomValue = None"
| "pickWeighted (event # rest) currentWeight randomValue =
     (if randomValue < int32 (currentWeight + Weight event) then Some event
      else pickWeighted rest (int32 (currentWeight + Weight event)) randomValue)"

text \<open>\<open>rand.Int31n\<close> panics unless its argument is positive.\<close>

definition selectWeightedEventType ::
  "EventTypeConfig list \<Rightarrow> world \<Rightarrow> EventTypeConfig res \<times> world" where
  "selectWeightedEventType events c =
     (let totalWeight = foldl (\<lambda>acc event. int32 (acc + Weight event)) 0 events
      in if totalWeight \<le> 0 then (Panic, c)
         else
           (case Intn (nat totalWeight) c of
              (randomValue, c1) \<Rightarrow>
                (case pickWeighted events 0 (int randomValue) of
                   Some event \<Rightarrow> (Ok event, c1)
                 | None \<Rightarrow> (case events of [] \<Rightarrow> (Panic, c1) | event # _ \<Rightarrow> (Ok event, c1)))))"

definition generateEvent ::
  "ScaleLoadConfig \<Rightarrow> string \<Rightarrow> int \<Rightarrow> world \<Rightarrow> object res \<times> world" where
  "generateEvent cfg namespace index c =
     then_res
       (selectWeightedEventType
          (if EventTypes (Events (ResourceChurn (Spec cfg))) \<noteq> []
           then EventTypes (Events (ResourceChurn (Spec cfg))) else defaultEventTypes) c)
       (\<lambda>selectedEvent c1.
          (Ok (new_object KEvent namespace
                 (''load-event-'' @ itoa index @ ''-'' @ itoa (clock c1 div 1000000000))
                 [(''scale.openshift.io/managed-by'', Name cfg),
                  (''scale.openshift.io/created-by'', ''sim-operator'')]), c1))"

text \<open>
  The loop of \<open>manageEvents\<close>: one create per index; a failed create is counted and
  left at that. The result is the number of events created.
\<close>

fun createEventsLoop ::
  "ScaleLoadConfig \<Rightarrow> string \<Rightarrow> int list \<Rightarrow> world \<Rightarrow> int res \<times> world" where
  "createEventsLoop cfg namespace [] c = (Ok 0, c)"
| "createEventsLoop cfg namespace (i # is) c =
     then_res (generateEvent cfg namespace i c)
       (\<lambda>event c1.
          case client_Create event c1 of
            (Some e, c2) \<Rightarrow> createEventsLoop cfg namespace is c2
          | (None, c2) \<Rightarrow>
              then_res (createEventsLoop cfg namespace is c2)
                (\<lambda>createdCount c3. (Ok (createdCount + 1), c3)))"

definition eventsToCreate :: "ScaleLoadConfig \<Rightarrow> world \<Rightarrow> int option" where
  "eventsToCreate cfg c =
     (let eventsPerHour =
            (if EventsPerNodePerHour (Events (ResourceChurn (Spec cfg))) \<le> 0 then 50
             else EventsPerNodePerHour (Events (ResourceChurn (Spec cfg))));
          timeSinceLastReconcile =
            (case lastReconcileTime (reconciler c) of
               None \<Rightarrow> 60000000000
             | Some t \<Rightarrow> time_Sub (clock c) t)
      in case int32_of_float64 (fmul (float64_of_int eventsPerHour) (Hours timeSinceLastReconcile)) of
           None \<Rightarrow> None
         | Some n \<Rightarrow> Some (if n > 10 then 10 else n))"

definition manageEvents ::
  "ScaleLoadConfig \<Rightarrow> string \<Rightarrow> world \<Rightarrow> (int \<times> error option) res \<times> world" where
  "manageEvents cfg namespace c =
     (case eventsToCreate cfg c of
        None \<Rightarrow> (Undef, c)
      | Some n \<Rightarrow>
          then_res (createEventsLoop cfg namespace [0..n - 1] c)
            (\<lambda>createdCount c1. (Ok (createdCount, None), c1)))"

subsection \<open>All kinds of one namespace\<close>

text \<open>
  One block of \<open>manageNamespaceResources\<close>: a kind that is enabled and passes its
  gate is managed; an error is logged, and a count is recorded under the kind's key
  only without one.
\<close>

definition manageKind ::
  "bool \<Rightarrow> bool \<Rightarrow> string \<Rightarrow> (world \<Rightarrow> (int \<times> error option) res \<times> world)
     \<Rightarrow> (string \<times> int) list \<Rightarrow> world \<Rightarrow> (string \<times> int) list res \<times> world" where
  "manageKind enabled gate key manage resourceCounts c =
     (if enabled \<and> gate then
        then_res (manage c)
          (\<lambda>(n, err) c1.
             case err of
               Some e \<Rightarrow> (Ok resourceCounts, c1)
             | None \<Rightarrow> (Ok (AList.update key n resourceCounts), c1))
      else (Ok resourceCounts, c))"

definition manageNamespaceResources ::
  "ScaleLoadConfig \<Rightarrow> object \<Rightarrow> world
     \<Rightarrow> ((string \<times> int) list \<times> error option) res \<times> world" where
  "manageNamespaceResources cfg namespace c =
     (case checkNamespaceStatus (Name namespace) c of
        ((False, phase), c0) \<Rightarrow> (Ok ([], Some (ErrorNew ''namespace is not ready'')), c0)
      | ((True, phase), c0) \<Rightarrow>
          let rc = ResourceChurn (Spec cfg) in
          then_res (manageKind (Enabled (ConfigMaps rc))
                      (shouldCreateResourceForNamespace namespace (NamespaceInterval (ConfigMaps rc)))
                      ''configMaps''
                      (manageConfigMaps cfg (Name namespace) (Count (ConfigMaps rc))) [] c0)
         (\<lambda>counts1 c1.
          then_res (manageKind (Enabled (Secrets rc))
                      (shouldCreateResourceForNamespace namespace (NamespaceInterval (Secrets rc)))
                      ''secrets''
                      (manageSecrets cfg (Name namespace) (Count (Secrets rc))) counts1 c1)
         (\<lambda>counts2 c2.
          then_res (manageKind (Enabled (Routes rc))
                      (shouldCreateResourceForNamespace namespace (NamespaceInterval (Routes rc)))
                      ''routes''
                      (manageRoutes cfg (Name namespace) (Count (Routes rc))) counts2 c2)
         (\<lambda>counts3 c3.
          then_res (manageKind (Enabled (ImageStreams rc))
                      (shouldCreateResourceForNamespace namespace (NamespaceInterval (ImageStreams rc)))
                      ''imageStreams''
                      (manageImageStreams cfg (Name namespace) (Count (ImageStreams rc))) counts3 c3)
         (\<lambda>counts4 c4.
          then_res (manageKind (Enabled (BuildConfigs rc))
                      (shouldCreateResourceForNamespace namespace (NamespaceInterval (BuildConfigs rc)))
                      ''buildConfigs''
                      (manageBuildConfigs cfg (Name namespace) (Count (BuildConfigs rc))) counts4 c4)
         (\<lambda>counts5 c5.
          then_res (manageKind (EventsEnabled (Events rc)) True ''events''
                      (manageEvents cfg (Name namespace)) counts5 c5)
         (\<lambda>counts6 c6. (Ok (counts6, None), c6))))))))"

section \<open>The controller\<close>

subsection \<open>Targets and intervals\<close>

definition calculateTargetNamespaces :: "ScaleLoadConfig \<Rightarrow> int \<Rightarrow> int option" where
  "calculateTargetNamespaces cfg nodeCount =
     (case NamespacesPerNode (LoadProfile (Spec cfg)) of
        Some s \<Rightarrow>
          (case ParseFloat s of
             Inr namespacesPerNode \<Rightarrow>
               int_of_float64 (Ceil (fmul (float64_of_int nodeCount) namespacesPerNode))
           | Inl err \<Rightarrow>
               int_of_float64 (Ceil (fmul (float64_of_int nodeCount) (float_lit 6 1))))
      | None \<Rightarrow>
          if Profile (LoadProfile (Spec cfg)) = ''development''
          then int_of_float64 (Ceil (fmul (float64_of_int nodeCount) (float_lit 2 1)))
          else if Profile (LoadProfile (Spec cfg)) = ''staging''
          then int_of_float64 (Ceil (fmul (float64_of_int nodeCount) (float_lit 4 1)))
          else if Profile (LoadProfile (Spec cfg)) = ''extreme''
          then int_of_float64 (Ceil (fmul (float64_of_int nodeCount) (float_lit 10 1)))
          else int_of_float64 (Ceil (fmul (float64_of_int nodeCount) (float_lit 6 1))))"

definition calculateReconcileInterval :: "ScaleLoadConfig \<Rightarrow> int" where
  "calculateReconcileInterval cfg =
     (if Profile (LoadProfile (Spec cfg)) = ''development'' then 2 * 60000000000
      else if Profile (LoadProfile (Spec cfg)) = ''staging'' then 90 * 1000000000
      else if Profile (LoadProfile (Spec cfg)) = ''extreme'' then 30 * 1000000000
      else 60 * 1000000000)"

subsection \<open>The rate budget\<close>

text \<open>
  Modelled from the spec: \<open>getEffectiveAPIRate\<close> and \<open>checkAPIRateLimit\<close>, which
  \<open>Reconcile\<close> calls and the sources do not contain. The effective rate is the static
  total rate if set, else the per-node rate times the node count, else the deprecated
  single rate times the node count, else the default per-node rate (20 calls a minute)
  times the node count.
\<close>

definition getEffectiveAPIRate :: "ScaleLoadConfig \<Rightarrow> int \<Rightarrow> int \<times> string" where
  "getEffectiveAPIRate cfg nodeCount =
     (case APICallRateStatic (LoadProfile (Spec cfg)) of
        Some rate \<Rightarrow> (rate, ''static'')
      | None \<Rightarrow>
          (case APICallRatePerNode (LoadProfile (Spec cfg)) of
             Some rate \<Rightarrow> (rate * nodeCount, ''per-node'')
           | None \<Rightarrow>
               (case APICallRate (LoadProfile (Spec cfg)) of
                  Some rate \<Rightarrow> (rate * nodeCount, ''per-node-deprecated'')
                | None \<Rightarrow> (20 * nodeCount, ''default''))))"

text \<open>
  Modelled from the spec: a window older than one minute is reset; the request is
  admitted iff the counter plus the estimate stays within the effective rate; an
  admitted request is added to the counter, a denied one leaves it as it is.
\<close>

definition checkAPIRateLimit :: "ScaleLoadConfig \<Rightarrow> int \<Rightarrow> int \<Rightarrow> world \<Rightarrow> bool \<times> world" where
  "checkAPIRateLimit cfg estimatedCalls nodeCount c =
     (let r = reconciler c;
          r1 = (case lastRateLimitReset r of
                  None \<Rightarrow> r\<lparr>apiCallCounter := 0, lastRateLimitReset := Some (clock c)\<rparr>
                | Some t \<Rightarrow>
                    if 60000000000 \<le> time_Sub (clock c) t
                    then r\<lparr>apiCallCounter := 0, lastRateLimitReset := Some (clock c)\<rparr>
                    else r);
          effectiveRate = fst (getEffectiveAPIRate cfg nodeCount)
      in if apiCallCounter r1 + estimatedCalls \<le> effectiveRate
         then (True, c\<lparr>reconciler := r1\<lparr>apiCallCounter := apiCallCounter r1 + estimatedCalls\<rparr>\<rparr>)
         else (False, c\<lparr>reconciler := r1\<rparr>))"

subsection \<open>Nodes and namespaces\<close>

definition getKwokNodes :: "string_map \<Rightarrow> world \<Rightarrow> (error + object list) \<times> world" where
  "getKwokNodes selector c =
     (case client_List KNode [] (if selector = [] then [(''type'', ''kwok'')] else selector) c of
        (Inl e, c1) \<Rightarrow> (Inl (Errorf ''failed to list KWOK nodes'' (ApiError e)), c1)
      | (Inr nodes, c1) \<Rightarrow> (Inr nodes, c1))"

definition getManagedNamespaces :: "ScaleLoadConfig \<Rightarrow> world \<Rightarrow> (api_error + object list) \<times> world" where
  "getManagedNamespaces cfg c =
     client_List KNamespace [] [(''scale.openshift.io/managed-by'', Name cfg)] c"

fun generateRandomString :: "nat \<Rightarrow> world \<Rightarrow> string \<times> world" where
  "generateRandomString 0 c = ([], c)"
| "generateRandomString (Suc n) c =
     (case Intn 36 c of
        (d, c1) \<Rightarrow>
          (case generateRandomString n c1 of
             (s, c2) \<Rightarrow> (''abcdefghijklmnopqrstuvwxyz0123456789'' ! d # s, c2)))"

definition set_resourceManager :: "string \<Rightarrow> ResourceManager \<Rightarrow> world \<Rightarrow> world" where
  "set_resourceManager n rm c =
     c\<lparr>reconciler := (reconciler c)\<lparr>resourceManagers :=
          AList.update n rm (resourceManagers (reconciler c))\<rparr>\<rparr>"

definition delete_resourceManager :: "string \<Rightarrow> world \<Rightarrow> world" where
  "delete_resourceManager n c =
     c\<lparr>reconciler := (reconciler c)\<lparr>resourceManagers :=
          AList.delete n (resourceManagers (reconciler c))\<rparr>\<rparr>"

text \<open>The loop of \<open>createNamespaces\<close> over \<open>i = 0, ..., count - 1\<close>.\<close>

fun createNamespaces_loop ::
  "ScaleLoadConfig \<Rightarrow> object list \<Rightarrow> string \<Rightarrow> int \<Rightarrow> int list \<Rightarrow> world \<Rightarrow> error option \<times> world" where
  "createNamespaces_loop cfg kwokNodes prefix startIndex [] c = (None, c)"
| "createNamespaces_loop cfg kwokNodes prefix startIndex (i # is) c =
     (case generateRandomString 6 c of
        (suffix, c1) \<Rightarrow>
          let namespaceName = prefix @ suffix @ ''-'' @ itoa ((clock c1 div 1000000000) smod 10000) in
          (case (if kwokNodes = [] then (0, c1) else Intn (length kwokNodes) c1) of
             (k, c2) \<Rightarrow>
               let associatedNode = (if kwokNodes = [] then [] else Name (kwokNodes ! k));
                   namespace =
                     (new_object KNamespace [] namespaceName
                        (foldl (\<lambda>ls (k, v). AList.update k v ls)
                           [(''scale.openshift.io/managed-by'', Name cfg),
                            (''scale.openshift.io/associated-node'', associatedNode),
                            (''scale.openshift.io/created-by'', ''sim-operator''),
                            (''scale.openshift.io/namespace-index'', itoa (startIndex + i))]
                           (NamespaceLabels (NamespaceConfig (Spec cfg)))))
                       \<lparr>Annotations :=
                          foldl (\<lambda>ls (k, v). AList.update k v ls) []
                            (NamespaceAnnotations (NamespaceConfig (Spec cfg)))\<rparr>
               in (case client_Create namespace c2 of
                     (Some e, c3) \<Rightarrow>
                       (Some (Errorf ''failed to create namespace'' (ApiError e)), c3)
                   | (None, c3) \<Rightarrow>
                       createNamespaces_loop cfg kwokNodes prefix startIndex is
                         (set_resourceManager namespaceName
                            \<lparr>rm_namespace = namespaceName, rm_associatedNode = associatedNode,
                             rm_lastUpdate = clock c3\<rparr> c3))))"

definition createNamespaces ::
  "ScaleLoadConfig \<Rightarrow> object list \<Rightarrow> int \<Rightarrow> world \<Rightarrow> error option \<times> world" where
  "createNamespaces cfg kwokNodes cnt c =
     (case getManagedNamespaces cfg c of
        (Inl e, c1) \<Rightarrow>
          (Some (Errorf ''failed to get existing namespaces for indexing'' (ApiError e)), c1)
      | (Inr existingNamespaces, c1) \<Rightarrow>
          createNamespaces_loop cfg kwokNodes
            (if NamespacePrefix (NamespaceConfig (Spec cfg)) = [] then ''openshift-fake-''
             else NamespacePrefix (NamespaceConfig (Spec cfg)))
            (int (length existingNamespaces)) [0..cnt - 1] c1)"

subsection \<open>Namespace deletion\<close>

text \<open>
  \<open>sort.Slice\<close> with the comparison \<open>CreationTimestamp.Before\<close>: the slice is
  reordered so that creation times do not decrease. The sort is not stable, and the
  place of namespaces created at the same time is the library's choice. The next of the
  \<open>orders\<close> of the world is that choice: it is the result if it is a reordering of
  the slice by creation time; without one, namespaces of the same time keep their order.
\<close>

definition sortByCreationTimestamp :: "object list \<Rightarrow> world \<Rightarrow> object list \<times> world" where
  "sortByCreationTimestamp nss c =
     (case orders c of
        [] \<Rightarrow> (sort_key CreationTimestamp nss, c)
      | p # ps \<Rightarrow>
          (if mset p = mset nss \<and> sorted (map CreationTimestamp p) then p
           else sort_key CreationTimestamp nss, c\<lparr>orders := ps\<rparr>))"

text \<open>
  The loop of \<open>deleteNamespaces\<close> over the first \<open>cnt\<close> namespaces of the sorted
  slice: a failed delete returns at once, a successful one drops the namespace's
  resource manager.
\<close>

fun deleteNamespaces_loop :: "ScaleLoadConfig \<Rightarrow> object list \<Rightarrow> world \<Rightarrow> error option \<times> world" where
  "deleteNamespaces_loop cfg [] c = (None, c)"
| "deleteNamespaces_loop cfg (ns # rest) c =
     (case client_Delete KNamespace [] (Name ns)
             (if GracefulDeletes (CleanupConfig (Spec cfg)) then Some 30 else None) c of
        (Some e, c1) \<Rightarrow> (Some (Errorf ''failed to delete namespace'' (ApiError e)), c1)
      | (None, c1) \<Rightarrow> deleteNamespaces_loop cfg rest (delete_resourceManager (Name ns) c1))"

definition deleteNamespaces ::
  "ScaleLoadConfig \<Rightarrow> object list \<Rightarrow> int \<Rightarrow> world \<Rightarrow> error option \<times> world" where
  "deleteNamespaces cfg namespaces cnt c =
     (case sortByCreationTimestamp namespaces c of
        (sorted_namespaces, c1) \<Rightarrow>
          deleteNamespaces_loop cfg (take (nat cnt) sorted_namespaces) c1)"

subsection \<open>Namespaces and their resources\<close>

definition count_of :: "(string \<times> int) list \<Rightarrow> string \<Rightarrow> int" where
  "count_of resourceCounts key = (case map_of resourceCounts key of None \<Rightarrow> 0 | Some n \<Rightarrow> n)"

definition add_counts :: "(string \<times> int) list \<Rightarrow> (string \<times> int) list \<Rightarrow> (string \<times> int) list" where
  "add_counts resourceCounts counts =
     foldl (\<lambda>acc (resourceType, n). AList.update resourceType (count_of acc resourceType + n) acc)
       resourceCounts counts"

text \<open>
  The loop of \<open>manageLoadResources\<close> over the managed namespaces: a namespace that is
  not ready is skipped, a failure in one is logged, and the counts of the others are
  added up by kind.
\<close>

fun manageNamespaces_loop ::
  "ScaleLoadConfig \<Rightarrow> object list \<Rightarrow> (string \<times> int) list \<Rightarrow> world
     \<Rightarrow> (string \<times> int) list res \<times> world" where
  "manageNamespaces_loop cfg [] resourceCounts c = (Ok resourceCounts, c)"
| "manageNamespaces_loop cfg (ns # rest) resourceCounts c =
     (case isNamespaceReady (Name ns) c of
        (False, c1) \<Rightarrow> manageNamespaces_loop cfg rest resourceCounts c1
      | (True, c1) \<Rightarrow>
          then_res (manageNamespaceResources cfg ns c1)
            (\<lambda>(counts, err) c2.
               case err of
                 Some e \<Rightarrow> manageNamespaces_loop cfg rest resourceCounts c2
               | None \<Rightarrow> manageNamespaces_loop cfg rest (add_counts resourceCounts counts) c2))"

definition manageLoadResources ::
  "ScaleLoadConfig \<Rightarrow> object list \<Rightarrow> int \<Rightarrow> world
     \<Rightarrow> (int \<times> (string \<times> int) list \<times> error option) res \<times> world" where
  "manageLoadResources cfg kwokNodes targetNamespaces c =
     (case getManagedNamespaces cfg c of
        (Inl e, c1) \<Rightarrow>
          (Ok (0, [], Some (Errorf ''failed to get managed namespaces'' (ApiError e))), c1)
      | (Inr existingNamespaces, c1) \<Rightarrow>
          let currentNamespaceCount = int (length existingNamespaces) in
          (case (if currentNamespaceCount < targetNamespaces
                 then
                   (case createNamespaces cfg kwokNodes
                           (targetNamespaces - currentNamespaceCount) c1 of
                      (Some err, c2) \<Rightarrow>
                        (Inl (currentNamespaceCount,
                              Errorf ''failed to create namespaces'' err), c2)
                    | (None, c2) \<Rightarrow>
                        (case getManagedNamespaces cfg c2 of
                           (Inl e, c3) \<Rightarrow> (Inl (currentNamespaceCount, ApiError e), c3)
                         | (Inr nss, c3) \<Rightarrow> (Inr (nss, int (length nss)), c3)))
                 else (Inr (existingNamespaces, currentNamespaceCount), c1)) of
             (Inl (n, err), c4) \<Rightarrow> (Ok (n, [], Some err), c4)
           | (Inr (existingNamespaces2, currentNamespaceCount2), c4) \<Rightarrow>
               (case (if currentNamespaceCount2 > targetNamespaces
                      then
                        (case deleteNamespaces cfg existingNamespaces2
                                (currentNamespaceCount2 - targetNamespaces) c4 of
                           (Some err, c5) \<Rightarrow>
                             (Inl (currentNamespaceCount2,
                                   Errorf ''failed to delete namespaces'' err), c5)
                         | (None, c5) \<Rightarrow> (Inr targetNamespaces, c5))
                      else (Inr currentNamespaceCount2, c4)) of
                  (Inl (n, err), c6) \<Rightarrow> (Ok (n, [], Some err), c6)
                | (Inr currentNamespaceCount3, c6) \<Rightarrow>
                    (case getManagedNamespaces cfg c6 of
                       (Inl e, c7) \<Rightarrow>
                         (Ok (currentNamespaceCount3, [],
                              Some (Errorf ''failed to get current namespaces'' (ApiError e))), c7)
                     | (Inr currentNamespaces, c7) \<Rightarrow>
                         then_res (manageNamespaces_loop cfg currentNamespaces [] c7)
                           (\<lambda>resourceCounts c8.
                              (Ok (currentNamespaceCount3, resourceCounts, None), c8))))))"

section \<open>Node annotation churn\<close>

text \<open>
  What an annotation generator returns: random text (one random number stands for it),
  the name of the node, or a constant.
\<close>

datatype generator = GenRandom | GenNodeName | GenConst string

definition ovnAnnotations :: "(string \<times> generator) list" where
  "ovnAnnotations =
     [(''k8s.ovn.org/host-cidrs'', GenRandom),
      (''k8s.ovn.org/l3-gateway-config'', GenRandom),
      (''k8s.ovn.org/node-chassis-id'', GenRandom),
      (''k8s.ovn.org/node-encap-ips'', GenRandom),
      (''k8s.ovn.org/node-primary-ifaddr'', GenRandom),
      (''k8s.ovn.org/node-subnets'', GenRandom),
      (''k8s.ovn.org/node-transit-switch-port-ifaddr'', GenRandom),
      (''k8s.ovn.org/zone-name'', GenNodeName),
      (''k8s.ovn.org/remote-zone-migrated'', GenNodeName),
      (''k8s.ovn.org/layer2-topology-version'', GenRandom)]"

definition machineConfigAnnotations :: "(string \<times> generator) list" where
  "machineConfigAnnotations =
     [(''machineconfiguration.openshift.io/currentConfig'', GenRandom),
      (''machineconfiguration.openshift.io/desiredConfig'', GenRandom),
      (''machineconfiguration.openshift.io/desiredDrain'', GenRandom),
      (''machineconfiguration.openshift.io/lastAppliedDrain'', GenRandom),
      (''machineconfiguration.openshift.io/state'', GenRandom),
      (''machineconfiguration.openshift.io/reason'', GenRandom),
      (''machineconfiguration.openshift.io/lastSyncedControllerConfigResourceVersion'', GenRandom),
      (''machineconfiguration.openshift.io/controlPlaneTopology'', GenConst ''HighlyAvailable''),
      (''machineconfiguration.openshift.io/lastObservedServerCAAnnotation'', GenConst ''false''),
      (''machineconfiguration.openshift.io/post-config-action'', GenConst [])]"

definition generate :: "generator \<Rightarrow> object \<Rightarrow> world \<Rightarrow> string \<times> world" where
  "generate g node c =
     (case g of
        GenRandom \<Rightarrow> (case Intn 4294967296 c of (n, c1) \<Rightarrow> (itoa (int n), c1))
      | GenNodeName \<Rightarrow> (Name node, c)
      | GenConst s \<Rightarrow> (s, c))"

definition annotate :: "string \<Rightarrow> string \<Rightarrow> object \<Rightarrow> object" where
  "annotate k v node = node\<lparr>Annotations := AList.update k v (Annotations node)\<rparr>"

text \<open>
  The loop over a table of generators: each key is, with the chance of one random
  test, set to a generated value.
\<close>

fun applyGenerators ::
  "(string \<times> generator) list \<Rightarrow> object \<Rightarrow> bool \<Rightarrow> world \<Rightarrow> (object \<times> bool) \<times> world" where
  "applyGenerators [] node updated c = ((node, updated), c)"
| "applyGenerators ((annotation, g) # rest) node updated c =
     (case flip c of
        (False, c1) \<Rightarrow> applyGenerators rest node updated c1
      | (True, c1) \<Rightarrow>
          (case generate g node c1 of
             (v, c2) \<Rightarrow> applyGenerators rest (annotate annotation v node) True c2))"

definition updateNetworkingAnnotations :: "object \<Rightarrow> world \<Rightarrow> (object \<times> bool) \<times> world" where
  "updateNetworkingAnnotations node c =
     (let now = clock c in
      case applyGenerators ovnAnnotations node False c of
        ((node1, updated1), c1) \<Rightarrow>
          (case flip c1 of
             (cloud, c2) \<Rightarrow>
               (case (if cloud then generate GenRandom node1 c2 else ([], c2)) of
                  (v, c3) \<Rightarrow>
                    let node2 = (if cloud
                                 then annotate ''cloud.network.openshift.io/egress-ipconfig'' v node1
                                 else node1);
                        updated = (updated1 \<or> cloud)
                    in if updated then
                         (case Intn 10000 c3 of
                            (n, c4) \<Rightarrow>
                              ((annotate ''scale.openshift.io/networking-churn-iteration''
                                  (itoa (int n))
                                  (annotate ''scale.openshift.io/last-annotation-update''
                                     (formatTime now) node2), True), c4))
                       else ((node2, False), c3))))"

definition updateMachineConfigAnnotations :: "object \<Rightarrow> world \<Rightarrow> (object \<times> bool) \<times> world" where
  "updateMachineConfigAnnotations node c =
     (let now = clock c in
      case applyGenerators machineConfigAnnotations node False c of
        ((node1, updated), c1) \<Rightarrow>
          if updated then
            (case Intn 10000 c1 of
               (n, c2) \<Rightarrow>
                 ((annotate ''scale.openshift.io/machine-config-churn-iteration'' (itoa (int n))
                     (annotate ''scale.openshift.io/last-annotation-update''
                        (formatTime now) node1), True), c2))
          else ((node1, False), c1))"

text \<open>
  \<open>updateClusterAnnotations\<close> always reports an update. \<open>generateMachineReference\<close>
  slices the last six characters off the node name and panics on a shorter name.
\<close>

definition updateClusterAnnotations :: "object \<Rightarrow> world \<Rightarrow> (object \<times> bool) res \<times> world" where
  "updateClusterAnnotations node c =
     (let now = clock c in
      case flip c of
        (csi, c1) \<Rightarrow>
          (case (if csi then generate GenRandom node c1 else ([], c1)) of
             (v1, c2) \<Rightarrow>
               let node1 = (if csi then annotate ''csi.volume.kubernetes.io/nodeid'' v1 node
                            else node)
               in (case flip c2 of
                     (machine, c3) \<Rightarrow>
                       if machine \<and> length (Name node) < 6 then (Panic, c3)
                       else
                         (case (if machine then generateRandomString 6 c3 else ([], c3)) of
                            (v2, c4) \<Rightarrow>
                              let node2 =
                                    (if machine
                                     then annotate ''machine.openshift.io/machine''
                                            (''openshift-machine-api/ci-op-'' @ v2
                                               @ ''-worker-us-west-2a-''
                                               @ drop (length (Name node) - 6) (Name node)) node1
                                     else node1)
                              in (Ok (annotate ''scale.openshift.io/last-seen'' (formatTime now)
                                        (annotate ''scale.openshift.io/load-generator-managed''
                                           ''true'' node2), True), c4)))))"

text \<open>\<open>rand.Int63n\<close> panics unless its argument is positive.\<close>

definition shouldUpdateNodeAnnotations ::
  "object \<Rightarrow> int \<Rightarrow> int \<Rightarrow> world \<Rightarrow> bool res \<times> world" where
  "shouldUpdateNodeAnnotations node minInterval maxInterval c =
     (case map_of (Annotations node) ''scale.openshift.io/last-annotation-update'' of
        None \<Rightarrow> (Ok True, c)
      | Some lastUpdateStr \<Rightarrow>
          (case parseTime lastUpdateStr of
             None \<Rightarrow> (Ok True, c)
           | Some lastUpdate \<Rightarrow>
               if maxInterval - minInterval \<le> 0 then (Panic, c)
               else
                 (case Intn (nat (maxInterval - minInterval)) c of
                    (n, c1) \<Rightarrow>
                      (Ok (minInterval + int n \<le> time_Sub (clock c1) lastUpdate), c1))))"

subsection \<open>Update with retry\<close>

definition sleep :: "int \<Rightarrow> world \<Rightarrow> world" where
  "sleep d c = c\<lparr>clock := clock c + d, sleeps := sleeps c @ [d]\<rparr>"

text \<open>\<open>wait.Jitter(duration, 0.1)\<close>: the duration plus a random part below a tenth of it.\<close>

definition Jitter :: "int \<Rightarrow> world \<Rightarrow> int \<times> world" where
  "Jitter duration c =
     (if duration div 10 \<le> 0 then (duration, c)
      else (case Intn (nat (duration div 10)) c of (j, c1) \<Rightarrow> (duration + int j, c1)))"

text \<open>
  \<open>wait.ExponentialBackoff\<close> with factor 2 and jitter 0.1: the condition runs at most
  \<open>steps\<close> times; an error or success of the condition ends the loop; between two
  runs the loop sleeps for the jittered duration, which then doubles.
\<close>

fun ExponentialBackoff ::
  "nat \<Rightarrow> int \<Rightarrow> (world \<Rightarrow> (bool \<times> error option) \<times> world) \<Rightarrow> world \<Rightarrow> error option \<times> world" where
  "ExponentialBackoff 0 duration condition c = (Some ErrWaitTimeout, c)"
| "ExponentialBackoff (Suc steps) duration condition c =
     (case condition c of
        ((ok, err), c1) \<Rightarrow>
          if err \<noteq> None \<or> ok then (err, c1)
          else if steps = 0 then (Some ErrWaitTimeout, c1)
          else
            (case Jitter duration c1 of
               (d, c2) \<Rightarrow> ExponentialBackoff steps (duration * 2) condition (sleep d c2)))"

text \<open>
  One attempt of \<open>updateNodeWithRetry\<close>: fetch the node, lay the annotations of the
  prepared copy over the fetched ones, and write.
\<close>

definition updateAttempt :: "string \<Rightarrow> object \<Rightarrow> world \<Rightarrow> (bool \<times> error option) \<times> world" where
  "updateAttempt nodeName nodeUpdate c =
     (case client_Get KNode [] nodeName c of
        (Inl e, c1) \<Rightarrow> ((False, Some (ApiError e)), c1)
      | (Inr currentNode, c1) \<Rightarrow>
          (case client_Update
                  (currentNode\<lparr>Annotations :=
                     foldl (\<lambda>m (k, v). AList.update k v m) (Annotations currentNode)
                       (Annotations nodeUpdate)\<rparr>) c1 of
             (Some e, c2) \<Rightarrow>
               if IsConflict (ApiError e) then ((False, None), c2)
               else ((False, Some (ApiError e)), c2)
           | (None, c2) \<Rightarrow> ((True, None), c2)))"

definition updateNodeWithRetry :: "string \<Rightarrow> object \<Rightarrow> world \<Rightarrow> error option \<times> world" where
  "updateNodeWithRetry nodeName nodeUpdate c =
     ExponentialBackoff 5 100000000 (updateAttempt nodeName nodeUpdate) c"

text \<open>
  The loop of \<open>updateNodeAnnotations\<close> over the nodes: a node whose update fails after
  the retries is logged, and the loop goes on with the next node.
\<close>

fun updateNodeAnnotations_loop ::
  "ScaleLoadConfig \<Rightarrow> object list \<Rightarrow> world \<Rightarrow> error option res \<times> world" where
  "updateNodeAnnotations_loop cfg [] c = (Ok None, c)"
| "updateNodeAnnotations_loop cfg (node # rest) c =
     then_res (shouldUpdateNodeAnnotations node
                 (UpdateIntervalMin (AnnotationChurn (Spec cfg)) * 1000000000)
                 (UpdateIntervalMax (AnnotationChurn (Spec cfg)) * 1000000000) c)
       (\<lambda>shouldUpdate c1.
          if \<not> shouldUpdate then updateNodeAnnotations_loop cfg rest c1
          else
            (case (if NetworkingAnnotations (AnnotationChurn (Spec cfg))
                   then updateNetworkingAnnotations node c1 else ((node, False), c1)) of
               ((node1, updated1), c2) \<Rightarrow>
                 (case (if MachineConfigAnnotations (AnnotationChurn (Spec cfg))
                        then updateMachineConfigAnnotations node1 c2 else ((node1, False), c2)) of
                    ((node2, updated2), c3) \<Rightarrow>
                      then_res (updateClusterAnnotations node2 c3)
                        (\<lambda>(nodeToUpdate, updated3) c4.
                           if updated1 \<or> updated2 \<or> updated3 then
                             (case updateNodeWithRetry (Name node) nodeToUpdate c4 of
                                (err, c5) \<Rightarrow> updateNodeAnnotations_loop cfg rest c5)
                           else updateNodeAnnotations_loop cfg rest c4))))"

definition updateNodeAnnotations ::
  "ScaleLoadConfig \<Rightarrow> object list \<Rightarrow> world \<Rightarrow> error option res \<times> world" where
  "updateNodeAnnotations cfg kwokNodes c = updateNodeAnnotations_loop cfg kwokNodes c"

section \<open>Status\<close>

definition getTotalResourceCount :: "(string \<times> int) list \<Rightarrow> int" where
  "getTotalResourceCount resourceCounts = int64 (sum_list (map snd resourceCounts))"

text \<open>
  \<open>calculateMetrics\<close>: the rates follow from the resource counts and the time since
  the last reconcile; the error rate is the constant \<open>0.0\<close>.
\<close>

definition calculateMetrics ::
  "ScaleLoadConfig \<Rightarrow> int \<Rightarrow> int \<Rightarrow> (string \<times> int) list \<Rightarrow> world \<Rightarrow> LoadGenerationMetrics" where
  "calculateMetrics cfg kwokNodeCount namespaceCount resourceCounts c =
     (let timeSinceLastReconcile =
            (case lastReconcileTime (reconciler c) of
               None \<Rightarrow> 60000000000
             | Some t \<Rightarrow> time_Sub (clock c) t);
          totalResources = getTotalResourceCount resourceCounts;
          estimatedAPICalls = fmul (float64_of_int totalResources) (float_lit 1 1);
          resourceCreationRate =
            fdiv (float64_of_int totalResources) (Minutes timeSinceLastReconcile);
          resourceUpdateRate = fmul resourceCreationRate (float_lit 3 1);
          resourceDeletionRate = fmul resourceCreationRate (float_lit 5 2)
      in \<lparr>APICallsPerMinute = FormatFloat_f 2 estimatedAPICalls,
          AverageReconcileTime = itoa (timeSinceLastReconcile sdiv 1000000),
          ErrorRate = FormatFloat_f 2 (Finite 0 0),
          ResourceCreationRate = FormatFloat_f 2 resourceCreationRate,
          ResourceUpdateRate = FormatFloat_f 2 resourceUpdateRate,
          ResourceDeletionRate = FormatFloat_f 2 resourceDeletionRate\<rparr>)"

definition updateConditions :: "ScaleLoadConfig \<Rightarrow> int \<Rightarrow> int \<Rightarrow> Condition list" where
  "updateConditions cfg kwokNodeCount now =
     (let readyCondition =
            (if \<not> SpecEnabled (Spec cfg) then
               \<lparr>ConditionType = ''Ready'', Status = ConditionFalse, LastTransitionTime = now,
                ConditionReason = ''LoadGenerationDisabled'',
                ConditionMessage = ''Load generation is disabled''\<rparr>
             else if kwokNodeCount = 0 then
               \<lparr>ConditionType = ''Ready'', Status = ConditionFalse, LastTransitionTime = now,
                ConditionReason = ''NoKwokNodes'',
                ConditionMessage = ''No KWOK nodes found matching selector''\<rparr>
             else
               \<lparr>ConditionType = ''Ready'', Status = ConditionTrue, LastTransitionTime = now,
                ConditionReason = ''LoadGenerationActive'',
                ConditionMessage =
                  ''Successfully generating load for '' @ itoa kwokNodeCount @ '' KWOK nodes''\<rparr>);
          scalingCondition =
            (if kwokNodeCount = 0 then
               \<lparr>ConditionType = ''Scaling'', Status = ConditionFalse, LastTransitionTime = now,
                ConditionReason = ''NoScaling'',
                ConditionMessage = ''No scaling activities due to zero KWOK nodes''\<rparr>
             else
               \<lparr>ConditionType = ''Scaling'', Status = ConditionTrue, LastTransitionTime = now,
                ConditionReason = ''ResourcesScaling'',
                ConditionMessage = ''Resources are scaling with KWOK node count''\<rparr>);
          degradedCondition =
            (case ParseFloat (ErrorRate (Metrics (ConfigStatus cfg))) of
               Inr errorRate \<Rightarrow>
                 if fgt errorRate (Finite 10 0) then
                   \<lparr>ConditionType = ''Degraded'', Status = ConditionTrue, LastTransitionTime = now,
                    ConditionReason = ''HighErrorRate'',
                    ConditionMessage = ''High error rate: '' @ FormatFloat_f 1 errorRate @ ''%''\<rparr>
                 else
                   \<lparr>ConditionType = ''Degraded'', Status = ConditionFalse, LastTransitionTime = now,
                    ConditionReason = ''OperatingNormally'',
                    ConditionMessage = ''Load generation is operating normally''\<rparr>
             | Inl err \<Rightarrow>
                 \<lparr>ConditionType = ''Degraded'', Status = ConditionFalse, LastTransitionTime = now,
                  ConditionReason = ''OperatingNormally'',
                  ConditionMessage = ''Load generation is operating normally''\<rparr>)
      in [readyCondition, scalingCondition, degradedCondition])"

record Result =
  Requeue :: bool
  RequeueAfter :: int

definition no_requeue :: Result where
  "no_requeue = \<lparr>Requeue = False, RequeueAfter = 0\<rparr>"

definition updateStatus ::
  "ScaleLoadConfig \<Rightarrow> int \<Rightarrow> int \<Rightarrow> (string \<times> int) list \<Rightarrow> world
     \<Rightarrow> (Result \<times> error option) \<times> world" where
  "updateStatus cfg kwokNodeCount namespaceCount resourceCounts c =
     (case client_GetConfig c of
        (Inl e, c1) \<Rightarrow> ((no_requeue, Some (ApiError e)), c1)
      | (Inr latestConfig, c1) \<Rightarrow>
          let metrics = calculateMetrics latestConfig kwokNodeCount namespaceCount resourceCounts c1;
              status1 = (ConfigStatus latestConfig)
                \<lparr>ObservedGeneration := Generation latestConfig,
                 KwokNodeCount := int32 kwokNodeCount,
                 GeneratedNamespaces := int32 namespaceCount,
                 LastReconcileTime := Some (clock c1),
                 Metrics := metrics,
                 TotalResources :=
                   \<lparr>ConfigMapsTotal = int32 (count_of resourceCounts ''configMaps''),
                    SecretsTotal = int32 (count_of resourceCounts ''secrets''),
                    RoutesTotal = int32 (count_of resourceCounts ''routes''),
                    ImageStreamsTotal = int32 (count_of resourceCounts ''imageStreams''),
                    BuildConfigsTotal = int32 (count_of resourceCounts ''buildConfigs''),
                    EventsTotal = int32 (count_of resourceCounts ''events'')\<rparr>\<rparr>;
              latest1 = latestConfig\<lparr>ConfigStatus := status1\<rparr>;
              latest2 = latest1\<lparr>ConfigStatus :=
                          status1\<lparr>Conditions := updateConditions latest1 kwokNodeCount (clock c1)\<rparr>\<rparr>;
              c2 = c1\<lparr>reconciler := (reconciler c1)
                       \<lparr>KwokNodeCountGauge := KwokNodeCount (ConfigStatus latest2),
                        GeneratedNamespacesGauge := GeneratedNamespaces (ConfigStatus latest2)\<rparr>\<rparr>
          in (case client_StatusUpdate latest2 c2 of
                (Some e, c3) \<Rightarrow> ((no_requeue, Some (ApiError e)), c3)
              | (None, c3) \<Rightarrow> ((no_requeue, None), c3)))"

section \<open>Deletion of the load specification\<close>

text \<open>
  The loop of \<open>cleanupManagedNamespaces\<close>: a failed delete is logged and the loop goes
  on.
\<close>

fun cleanup_loop :: "object list \<Rightarrow> world \<Rightarrow> world" where
  "cleanup_loop [] c = c"
| "cleanup_loop (ns # rest) c =
     (case client_Delete KNamespace [] (Name ns) None c of
        (Some e, c1) \<Rightarrow> cleanup_loop rest c1
      | (None, c1) \<Rightarrow> cleanup_loop rest (delete_resourceManager (Name ns) c1))"

definition cleanupManagedNamespaces :: "string \<Rightarrow> world \<Rightarrow> error option \<times> world" where
  "cleanupManagedNamespaces configName c =
     (case client_List KNamespace [] [(''scale.openshift.io/managed-by'', configName)] c of
        (Inl e, c1) \<Rightarrow> (Some (Errorf ''failed to list managed namespaces'' (ApiError e)), c1)
      | (Inr nss, c1) \<Rightarrow> (None, cleanup_loop nss c1))"

definition handleDeletion :: "string \<Rightarrow> world \<Rightarrow> (Result \<times> error option) \<times> world" where
  "handleDeletion configName c =
     (case cleanupManagedNamespaces configName c of
        (Some err, c1) \<Rightarrow> ((\<lparr>Requeue = False, RequeueAfter = 30 * 1000000000\<rparr>, Some err), c1)
      | (None, c1) \<Rightarrow>
          ((no_requeue, None), c1\<lparr>reconciler := (reconciler c1)\<lparr>resourceManagers := []\<rparr>\<rparr>))"

definition handleConfigDeletion :: "ScaleLoadConfig \<Rightarrow> world \<Rightarrow> (Result \<times> error option) \<times> world" where
  "handleConfigDeletion cfg c =
     (case (if CleanupEnabled (CleanupConfig (Spec cfg))
            then
              (case cleanupManagedNamespaces (Name cfg) c of
                 (Some err, c1) \<Rightarrow>
                   (Some (\<lparr>Requeue = False, RequeueAfter = 30 * 1000000000\<rparr>, Some err), c1)
               | (None, c1) \<Rightarrow>
                   if 0 < CleanupDelaySeconds (CleanupConfig (Spec cfg))
                      \<and> time_Sub (clock c1) (the (DeletionTimestamp cfg))
                          < CleanupDelaySeconds (CleanupConfig (Spec cfg)) * 1000000000
                   then (Some (\<lparr>Requeue = False, RequeueAfter = 10 * 1000000000\<rparr>, None), c1)
                   else (None, c1))
            else (None, c)) of
        (Some ret, c2) \<Rightarrow> (ret, c2)
      | (None, c2) \<Rightarrow>
          (case client_UpdateConfig
                  (cfg\<lparr>Finalizers := removeAll ''scale.openshift.io/cleanup'' (Finalizers cfg)\<rparr>) c2 of
             (Some e, c3) \<Rightarrow> ((no_requeue, Some (ApiError e)), c3)
           | (None, c3) \<Rightarrow> ((no_requeue, None), c3)))"

section \<open>Reconcile\<close>

definition inc_ErrorCount :: "world \<Rightarrow> world" where
  "inc_ErrorCount c = c\<lparr>reconciler := (reconciler c)\<lparr>ErrorCount := Suc (ErrorCount (reconciler c))\<rparr>\<rparr>"

text \<open>
  The part of \<open>Reconcile\<close> after the rate budget has admitted the tick: convergence of
  namespaces and resources, annotation churn, status, and the next interval.
\<close>

definition reconcile_admitted ::
  "ScaleLoadConfig \<Rightarrow> object list \<Rightarrow> int \<Rightarrow> int \<Rightarrow> world \<Rightarrow> (Result \<times> error option) res \<times> world" where
  "reconcile_admitted cfg kwokNodes targetNamespaces startTime c =
     then_res (manageLoadResources cfg kwokNodes targetNamespaces c)
       (\<lambda>(namespaceCount, resourceCounts, err) c1.
          case err of
            Some e \<Rightarrow> (Ok (no_requeue, Some e), inc_ErrorCount c1)
          | None \<Rightarrow>
              let c2 = c1\<lparr>reconciler := (reconciler c1)\<lparr>lastReconcileTime := Some startTime\<rparr>\<rparr> in
              then_res
                (if AnnotationChurnEnabled (AnnotationChurn (Spec cfg))
                 then updateNodeAnnotations cfg kwokNodes c2 else (Ok None, c2))
                (\<lambda>aerr c3.
                   case updateStatus cfg (int (length kwokNodes)) namespaceCount resourceCounts c3 of
                     ((res, Some e), c4) \<Rightarrow> (Ok (no_requeue, Some e), inc_ErrorCount c4)
                   | ((res, None), c4) \<Rightarrow>
                       (Ok (\<lparr>Requeue = False, RequeueAfter = calculateReconcileInterval cfg\<rparr>,
                            None), c4)))"

definition Reconcile :: "string \<Rightarrow> world \<Rightarrow> (Result \<times> error option) res \<times> world" where
  "Reconcile reqName c =
     (let startTime = clock c in
      case client_GetConfig c of
        (Inl e, c1) \<Rightarrow>
          if e = NotFound
          then (case handleDeletion reqName c1 of (ret, c2) \<Rightarrow> (Ok ret, c2))
          else (Ok (no_requeue, Some (ApiError e)), inc_ErrorCount c1)
      | (Inr cfg, c1) \<Rightarrow>
          if \<not> List.member (Finalizers cfg) ''scale.openshift.io/cleanup'' then
            (case client_UpdateConfig
                    (cfg\<lparr>Finalizers := Finalizers cfg @ [''scale.openshift.io/cleanup'']\<rparr>) c1 of
               (Some e, c2) \<Rightarrow> (Ok (no_requeue, Some (ApiError e)), inc_ErrorCount c2)
             | (None, c2) \<Rightarrow> (Ok (\<lparr>Requeue = True, RequeueAfter = 0\<rparr>, None), c2))
          else if DeletionTimestamp cfg \<noteq> None then
            (case handleConfigDeletion cfg c1 of (ret, c2) \<Rightarrow> (Ok ret, c2))
          else if \<not> SpecEnabled (Spec cfg) then
            (case updateStatus cfg 0 0 [] c1 of (ret, c2) \<Rightarrow> (Ok ret, c2))
          else
            (case getKwokNodes (KwokNodeSelector (Spec cfg)) c1 of
               (Inl err, c2) \<Rightarrow> (Ok (no_requeue, Some err), inc_ErrorCount c2)
             | (Inr kwokNodes, c2) \<Rightarrow>
                 let c3 = c2\<lparr>reconciler := (reconciler c2)
                              \<lparr>KwokNodeCountGauge := int (length kwokNodes)\<rparr>\<rparr> in
                 (case calculateTargetNamespaces cfg (int (length kwokNodes)) of
                    None \<Rightarrow> (Undef, c3)
                  | Some targetNamespaces \<Rightarrow>
                      let estimatedAPICalls = int32 (int64 (targetNamespaces * 5)) in
                      (case checkAPIRateLimit cfg estimatedAPICalls (int (length kwokNodes)) c3 of
                         (False, c4) \<Rightarrow>
                           (Ok (\<lparr>Requeue = False, RequeueAfter = 60000000000\<rparr>, None), c4)
                       | (True, c4) \<Rightarrow>
                           reconcile_admitted cfg kwokNodes targetNamespaces startTime c4))))"

section \<open>Requests and example inputs\<close>

text \<open>The delete request that \<open>deleteNamespaces\<close> issues for a namespace.\<close>

definition namespaceDelete :: "ScaleLoadConfig \<Rightarrow> object \<Rightarrow> request" where
  "namespaceDelete cfg ns =
     DeleteReq KNamespace [] (Name ns)
       (if GracefulDeletes (CleanupConfig (Spec cfg)) then Some 30 else None)"

text \<open>The five resource kinds that converge towards a target count, and their settings.\<close>

datatype resource_kind =
  ConfigMapsKind | SecretsKind | RoutesKind | ImageStreamsKind | BuildConfigsKind


fun setKindConfig :: "resource_kind \<Rightarrow> ResourceTypeConfig \<Rightarrow> ScaleLoadConfig \<Rightarrow> ScaleLoadConfig" where
  "setKindConfig ConfigMapsKind rt cfg =
     cfg\<lparr>Spec := (Spec cfg)\<lparr>ResourceChurn := (ResourceChurn (Spec cfg))\<lparr>ConfigMaps := rt\<rparr>\<rparr>\<rparr>"
| "setKindConfig SecretsKind rt cfg =
     cfg\<lparr>Spec := (Spec cfg)\<lparr>ResourceChurn := (ResourceChurn (Spec cfg))\<lparr>Secrets := rt\<rparr>\<rparr>\<rparr>"
| "setKindConfig RoutesKind rt cfg =
     cfg\<lparr>Spec := (Spec cfg)\<lparr>ResourceChurn := (ResourceChurn (Spec cfg))\<lparr>Routes := rt\<rparr>\<rparr>\<rparr>"
| "setKindConfig ImageStreamsKind rt cfg =
     cfg\<lparr>Spec := (Spec cfg)\<lparr>ResourceChurn := (ResourceChurn (Spec cfg))\<lparr>ImageStreams := rt\<rparr>\<rparr>\<rparr>"
| "setKindConfig BuildConfigsKind rt cfg =
     cfg\<lparr>Spec := (Spec cfg)\<lparr>ResourceChurn := (ResourceChurn (Spec cfg))\<lparr>BuildConfigs := rt\<rparr>\<rparr>\<rparr>"

fun kindKey :: "resource_kind \<Rightarrow> string" where
  "kindKey ConfigMapsKind = ''configMaps''"
| "kindKey SecretsKind = ''secrets''"
| "kindKey RoutesKind = ''routes''"
| "kindKey ImageStreamsKind = ''imageStreams''"
| "kindKey BuildConfigsKind = ''buildConfigs''"









text \<open>
  A load specification with every resource kind disabled, a world holding it, and
  namespaces to manage.
\<close>

definition disabledResource :: ResourceTypeConfig where
  "disabledResource = \<lparr>Enabled = False, Count = 1, NamespaceInterval = 1\<rparr>"

definition exampleSpec :: ScaleLoadConfigSpec where
  "exampleSpec =
     \<lparr>SpecEnabled = True, KwokNodeSelector = [],
      LoadProfile = \<lparr>Profile = ''production'', NamespacesPerNode = None, APICallRate = None,
                     APICallRateStatic = None, APICallRatePerNode = None\<rparr>,
      NamespaceConfig = \<lparr>NamespacePrefix = [], NamespaceLabels = [], NamespaceAnnotations = []\<rparr>,
      AnnotationChurn = \<lparr>AnnotationChurnEnabled = False, NetworkingAnnotations = True,
                         MachineConfigAnnotations = True, UpdateIntervalMin = 60,
                         UpdateIntervalMax = 300\<rparr>,
      ResourceChurn = \<lparr>ConfigMaps = disabledResource, Secrets = disabledResource,
                       Routes = disabledResource, ImageStreams = disabledResource,
                       BuildConfigs = disabledResource,
                       Events = \<lparr>EventsEnabled = False, EventsPerNodePerHour = 50, EventTypes = []\<rparr>\<rparr>,
      CleanupConfig = \<lparr>CleanupEnabled = True, GracefulDeletes = True, CleanupDelaySeconds = 60\<rparr>\<rparr>"

definition emptyStatus :: ScaleLoadConfigStatus where
  "emptyStatus =
     \<lparr>ObservedGeneration = 0, KwokNodeCount = 0, GeneratedNamespaces = 0,
      TotalResources = \<lparr>ConfigMapsTotal = 0, SecretsTotal = 0, RoutesTotal = 0,
                        ImageStreamsTotal = 0, BuildConfigsTotal = 0, EventsTotal = 0\<rparr>,
      LastReconcileTime = None, Conditions = [],
      Metrics = \<lparr>APICallsPerMinute = [], AverageReconcileTime = [], ErrorRate = [],
                 ResourceCreationRate = [], ResourceUpdateRate = [], ResourceDeletionRate = []\<rparr>\<rparr>"

definition exampleConfig :: ScaleLoadConfig where
  "exampleConfig =
     \<lparr>Name = ''load'', Namespace = [], Labels = [], Annotations = [], CreationTimestamp = 0,
      ResourceVersion = 1, Generation = 1, Finalizers = [''scale.openshift.io/cleanup''],
      DeletionTimestamp = None, Spec = exampleSpec, ConfigStatus = emptyStatus\<rparr>"

definition freshReconciler :: reconciler where
  "freshReconciler =
     \<lparr>lastReconcileTime = None, resourceManagers = [], apiCallCounter = 0,
      lastRateLimitReset = None, ErrorCount = 0, KwokNodeCountGauge = 0,
      GeneratedNamespacesGauge = 0\<rparr>"

definition exampleWorld :: "object list \<Rightarrow> world" where
  "exampleWorld obs =
     \<lparr>objects = obs, config = Some exampleConfig, log = [], faults = [], coins = [], draws = [],
      orders = [], clock = 1000000000000, sleeps = [], reconciler = freshReconciler\<rparr>"

definition exampleNamespace :: "string \<Rightarrow> int \<Rightarrow> int \<Rightarrow> object" where
  "exampleNamespace n created index =
     (new_object KNamespace [] n
        [(''scale.openshift.io/managed-by'', ''load''),
         (''scale.openshift.io/namespace-index'', itoa index)])
       \<lparr>CreationTimestamp := created, Phase := ''Active''\<rparr>"

definition threeNamespaces :: "object list" where
  "threeNamespaces =
     [exampleNamespace ''a'' 30 0, exampleNamespace ''b'' 10 1, exampleNamespace ''c'' 20 2]"

text \<open>
  Four namespaces of which three were created at the same time, and an order by creation
  time that does not keep these three in their input order.
\<close>

definition tiedNamespaces :: "object list" where
  "tiedNamespaces =
     [exampleNamespace ''a'' 20 0, exampleNamespace ''b'' 10 1, exampleNamespace ''c'' 10 2,
      exampleNamespace ''d'' 10 3]"

definition tiedOrder :: "object list" where
  "tiedOrder =
     [exampleNamespace ''d'' 10 3, exampleNamespace ''b'' 10 1, exampleNamespace ''c'' 10 2,
      exampleNamespace ''a'' 20 0]"


text \<open>
  ConfigMaps enabled in every second namespace, one per namespace, and three namespaces
  with the indices 0, 1 and 2.
\<close>

definition scenarioConfig :: ScaleLoadConfig where
  "scenarioConfig =
     setKindConfig ConfigMapsKind \<lparr>Enabled = True, Count = 1, NamespaceInterval = 2\<rparr> exampleConfig"

definition scenarioNamespaces :: "object list" where
  "scenarioNamespaces = map (\<lambda>i. exampleNamespace (''ns-'' @ itoa i) i i) [0..2]"













text \<open>
  The Degraded conditions of a status, the condition \<open>updateConditions\<close> writes when
  nothing is wrong, and the statuses carried by the status updates of a log.
\<close>

definition degradedConditions :: "ScaleLoadConfigStatus \<Rightarrow> Condition list" where
  "degradedConditions st = filter (\<lambda>cond. ConditionType cond = ''Degraded'') (Conditions st)"

definition operatingNormally :: "int \<Rightarrow> Condition" where
  "operatingNormally now =
     \<lparr>ConditionType = ''Degraded'', Status = ConditionFalse, LastTransitionTime = now,
      ConditionReason = ''OperatingNormally'',
      ConditionMessage = ''Load generation is operating normally''\<rparr>"

fun statusWrite :: "request \<times> api_error option \<Rightarrow> ScaleLoadConfigStatus option" where
  "statusWrite (StatusUpdateReq cfg, r) = Some (ConfigStatus cfg)"
| "statusWrite (rq, r) = None"

definition statusWrites :: "world \<Rightarrow> ScaleLoadConfigStatus list" where
  "statusWrites c = List.map_filter statusWrite (log c)"

text \<open>
  The published total of a kind. A specification with one ConfigMap in every namespace,
  and a cluster of three KWOK nodes and two ready namespaces under it.
\<close>

fun publishedTotal :: "resource_kind \<Rightarrow> ResourceCounts \<Rightarrow> int" where
  "publishedTotal ConfigMapsKind t = ConfigMapsTotal t"
| "publishedTotal SecretsKind t = SecretsTotal t"
| "publishedTotal RoutesKind t = RoutesTotal t"
| "publishedTotal ImageStreamsKind t = ImageStreamsTotal t"
| "publishedTotal BuildConfigsKind t = BuildConfigsTotal t"

definition countsConfig :: ScaleLoadConfig where
  "countsConfig =
     setKindConfig ConfigMapsKind \<lparr>Enabled = True, Count = 1, NamespaceInterval = 1\<rparr> exampleConfig"

definition kwokNode :: "string \<Rightarrow> object" where
  "kwokNode n = new_object KNode [] n [(''type'', ''kwok'')]"

definition twoNamespaces :: "object list" where
  "twoNamespaces = [exampleNamespace ''ns-0'' 0 0, exampleNamespace ''ns-1'' 1 1]"

definition countsWorld :: world where
  "countsWorld =
     (exampleWorld ([kwokNode ''node-0'', kwokNode ''node-1'', kwokNode ''node-2''] @ twoNamespaces))
       \<lparr>config := Some countsConfig\<rparr>"
section \<open>Evaluation of the model\<close>

lemmas client_defs = client_Delete_def client_Create_def client_Get_def client_List_def
  client_Update_def next_fault_def record_req_def same_key_def err_of_def matches_labels_def

lemmas example_defs = threeNamespaces_def exampleNamespace_def new_object_def exampleWorld_def
  exampleConfig_def exampleSpec_def freshReconciler_def disabledResource_def emptyStatus_def


lemma client_Delete_log:
  "client_Delete k ns n g c = (res, c') \<Longrightarrow> log c' = log c @ [(DeleteReq k ns n g, res)]"
  by (auto simp: client_Delete_def next_fault_def record_req_def Let_def
           split: list.splits option.splits if_splits)


lemma client_Create_log:
  "client_Create ob c = (res, c') \<Longrightarrow> log c' = log c @ [(CreateReq ob, res)]"
  by (auto simp: client_Create_def next_fault_def record_req_def Let_def
           split: list.splits option.splits if_splits)




section \<open>Namespace deletion is oldest first\<close>

lemma log_delete_resourceManager [simp]: "log (delete_resourceManager n c) = log c"
  by (simp add: delete_resourceManager_def)

lemma deleteNamespaces_loop_log:
  "deleteNamespaces_loop cfg vs c = (res, c') \<Longrightarrow>
     (case res of
        None \<Rightarrow> log c' = log c @ map (\<lambda>ns. (namespaceDelete cfg ns, None)) vs
      | Some err \<Rightarrow>
          (\<exists>k e. k < length vs \<and> err = Errorf ''failed to delete namespace'' (ApiError e) \<and>
             log c' = log c @ map (\<lambda>ns. (namespaceDelete cfg ns, None)) (take k vs)
                        @ [(namespaceDelete cfg (vs ! k), Some e)]))"
proof (induction vs arbitrary: c)
  case Nil
  then show ?case by simp
next
  case (Cons ns rest)
  obtain d c1 where d: "client_Delete KNamespace [] (Name ns)
             (if GracefulDeletes (CleanupConfig (Spec cfg)) then Some 30 else None) c = (d, c1)"
    by (meson surj_pair)
  have lg: "log c1 = log c @ [(namespaceDelete cfg ns, d)]"
    using client_Delete_log[OF d] by (simp add: namespaceDelete_def)
  show ?case
  proof (cases d)
    case None
    with Cons.prems d have run: "deleteNamespaces_loop cfg rest (delete_resourceManager (Name ns) c1) = (res, c')"
      by simp
    show ?thesis
    proof (cases res)
      case None
      with Cons.IH[OF run] lg \<open>d = None\<close> show ?thesis by simp
    next
      case (Some err)
      with Cons.IH[OF run] obtain k e where k: "k < length rest"
        "err = Errorf ''failed to delete namespace'' (ApiError e)"
        "log c' = log (delete_resourceManager (Name ns) c1)
             @ map (\<lambda>ns. (namespaceDelete cfg ns, None)) (take k rest)
             @ [(namespaceDelete cfg (rest ! k), Some e)]" by auto
      have "Suc k < length (ns # rest) \<and> err = Errorf ''failed to delete namespace'' (ApiError e) \<and>
             log c' = log c @ map (\<lambda>ns. (namespaceDelete cfg ns, None)) (take (Suc k) (ns # rest))
                        @ [(namespaceDelete cfg ((ns # rest) ! Suc k), Some e)]"
        using k lg \<open>d = None\<close> by simp
      then show ?thesis using Some by (simp only: option.case) blast
    qed
  next
    case (Some e)
    with Cons.prems d have "res = Some (Errorf ''failed to delete namespace'' (ApiError e))" "c' = c1"
      by auto
    then show ?thesis using lg Some
      by (simp only: option.case) (rule exI[of _ 0], auto)
  qed
qed

lemma sorted_take_drop_le:
  assumes "sorted (map f xs)" "v \<in> set (take n xs)" "k \<in> set (drop n xs)"
  shows "f v \<le> f k"
proof -
  from assms(2) obtain i where i: "i < length (take n xs)" "take n xs ! i = v"
    by (auto simp: in_set_conv_nth)
  from assms(3) obtain j where j: "j < length (drop n xs)" "drop n xs ! j = k"
    by (auto simp: in_set_conv_nth)
  have "i \<le> n + j" "n + j < length xs" "xs ! i = v" "xs ! (n + j) = k"
    using i j by auto
  then show ?thesis
    using assms(1) sorted_nth_mono[of "map f xs" i "n + j"] by auto
qed

lemma sortByCreationTimestamp_sorts:
  "mset (fst (sortByCreationTimestamp nss c)) = mset nss"
  "sorted (map CreationTimestamp (fst (sortByCreationTimestamp nss c)))"
  "log (snd (sortByCreationTimestamp nss c)) = log c"
  by (simp_all add: sortByCreationTimestamp_def split: list.splits)

lemma sorted_by_distinct_key_unique:
  assumes m: "mset p = mset xs" and s: "sorted (map f p)" and d: "distinct (map f xs)"
  shows "p = sort_key f xs"
proof -
  have mm: "mset (map f p) = mset (map f xs)" using m by (metis mset_map)
  have dp: "distinct (map f p)" using mm d by (metis mset_eq_imp_distinct_iff)
  have st: "set p = set xs" using m by (metis mset_eq_setD)
  have "map f p = map f (sort_key f xs)"
  proof (rule sorted_distinct_set_unique)
    show "sorted (map f p)" by (rule s)
    show "distinct (map f p)" by (rule dp)
    show "sorted (map f (sort_key f xs))" by simp
    show "distinct (map f (sort_key f xs))" using d by (simp add: distinct_map)
    show "set (map f p) = set (map f (sort_key f xs))" using st by simp
  qed
  moreover have "inj_on f (set p \<union> set (sort_key f xs))"
    using d st by (simp add: distinct_map)
  ultimately show ?thesis by (simp add: inj_on_map_eq_map)
qed

text \<open>
  Claim C3. \<open>deleteNamespaces\<close> sorts the namespaces it is given by creation
  timestamp, oldest first, whatever their order, and deletes the first \<open>cnt\<close> of
  the sorted slice (all of them if there are fewer): every namespace deleted is at
  least as old as every namespace kept, and the deletes go from older to younger. The
  sort is not stable: among namespaces created at the same time, which are deleted and
  in what order is the library's choice, and every order by creation time is the
  choice of some world; when the creation times differ there is one such order. Each
  delete carries a grace period of 30 seconds if the graceful-deletes flag is set and
  none otherwise. Without a failure the requests are exactly these deletes, in this
  order; a failed delete ends the batch after the deletes before it.
\<close>

theorem deleteNamespaces_oldest_first:
  "deleteNamespaces cfg nss cnt c = (res, c') \<Longrightarrow>
     mset (fst (sortByCreationTimestamp nss c)) = mset nss
     \<and> sorted (map CreationTimestamp (fst (sortByCreationTimestamp nss c)))
     \<and> length (take (nat cnt) (fst (sortByCreationTimestamp nss c))) = min (nat cnt) (length nss)
     \<and> (\<forall>v \<in> set (take (nat cnt) (fst (sortByCreationTimestamp nss c))).
          \<forall>k \<in> set (drop (nat cnt) (fst (sortByCreationTimestamp nss c))).
            CreationTimestamp v \<le> CreationTimestamp k)
     \<and> (distinct (map CreationTimestamp nss) \<longrightarrow>
          fst (sortByCreationTimestamp nss c) = sort_key CreationTimestamp nss)
     \<and> (\<forall>p. mset p = mset nss \<and> sorted (map CreationTimestamp p) \<longrightarrow>
          fst (sortByCreationTimestamp nss (c\<lparr>orders := p # orders c\<rparr>)) = p)
     \<and> (res = None \<longrightarrow>
          log c' = log c @ map (\<lambda>ns. (namespaceDelete cfg ns, None))
                              (take (nat cnt) (fst (sortByCreationTimestamp nss c))))
     \<and> (\<forall>err. res = Some err \<longrightarrow>
          (\<exists>k e. k < min (nat cnt) (length nss)
             \<and> err = Errorf ''failed to delete namespace'' (ApiError e)
             \<and> log c' = log c @ map (\<lambda>ns. (namespaceDelete cfg ns, None))
                                   (take k (fst (sortByCreationTimestamp nss c)))
                          @ [(namespaceDelete cfg (fst (sortByCreationTimestamp nss c) ! k), Some e)]))"
proof -
  assume run: "deleteNamespaces cfg nss cnt c = (res, c')"
  let ?s = "fst (sortByCreationTimestamp nss c)"
  let ?c1 = "snd (sortByCreationTimestamp nss c)"
  let ?v = "take (nat cnt) ?s"
  have m: "mset ?s = mset nss" by (rule sortByCreationTimestamp_sorts)
  have s: "sorted (map CreationTimestamp ?s)" by (rule sortByCreationTimestamp_sorts)
  have lg: "log ?c1 = log c" by (rule sortByCreationTimestamp_sorts)
  have ls: "length ?s = length nss" using m by (rule mset_eq_length)
  have l: "length ?v = min (nat cnt) (length nss)"
    using ls by (simp add: min.commute)
  have o: "\<forall>v \<in> set ?v. \<forall>k \<in> set (drop (nat cnt) ?s). CreationTimestamp v \<le> CreationTimestamp k"
    using sorted_take_drop_le[OF s] by blast
  have u: "distinct (map CreationTimestamp nss) \<longrightarrow> ?s = sort_key CreationTimestamp nss"
    using sorted_by_distinct_key_unique [OF m s] by blast
  have a: "\<forall>p. mset p = mset nss \<and> sorted (map CreationTimestamp p) \<longrightarrow>
          fst (sortByCreationTimestamp nss (c\<lparr>orders := p # orders c\<rparr>)) = p"
    by (simp add: sortByCreationTimestamp_def)
  from run have loop: "deleteNamespaces_loop cfg ?v ?c1 = (res, c')"
    by (simp add: deleteNamespaces_def split: prod.splits)
  have ok: "res = None \<longrightarrow> log c' = log c @ map (\<lambda>ns. (namespaceDelete cfg ns, None)) ?v"
    using deleteNamespaces_loop_log[OF loop] lg by auto
  have bad: "\<forall>err. res = Some err \<longrightarrow>
          (\<exists>k e. k < min (nat cnt) (length nss)
             \<and> err = Errorf ''failed to delete namespace'' (ApiError e)
             \<and> log c' = log c @ map (\<lambda>ns. (namespaceDelete cfg ns, None)) (take k ?s)
                          @ [(namespaceDelete cfg (?s ! k), Some e)])"
  proof (intro allI impI)
    fix err assume "res = Some err"
    with deleteNamespaces_loop_log[OF loop] lg obtain k e where k: "k < length ?v"
      "err = Errorf ''failed to delete namespace'' (ApiError e)"
      "log c' = log c @ map (\<lambda>ns. (namespaceDelete cfg ns, None)) (take k ?v)
                   @ [(namespaceDelete cfg (?v ! k), Some e)]" by auto
    from k(1) have kk: "k < nat cnt" "k < length ?s" by auto
    have "take k ?v = take k ?s" "?v ! k = ?s ! k" using kk by (simp_all add: min_absorb1)
    with k kk ls show "\<exists>k e. k < min (nat cnt) (length nss)
             \<and> err = Errorf ''failed to delete namespace'' (ApiError e)
             \<and> log c' = log c @ map (\<lambda>ns. (namespaceDelete cfg ns, None)) (take k ?s)
                          @ [(namespaceDelete cfg (?s ! k), Some e)]"
      by (intro exI[of _ k] exI[of _ e]) simp
  qed
  from m s l o u a ok bad show ?thesis by blast
qed

lemma tiedOrder_sorts:
  "mset tiedOrder = mset tiedNamespaces"
  "sorted (map CreationTimestamp tiedOrder)"
  by (simp_all add: tiedOrder_def tiedNamespaces_def exampleNamespace_def new_object_def)

lemma sort_tiedNamespaces:
  "fst (sortByCreationTimestamp tiedNamespaces (exampleWorld tiedNamespaces))
     = [exampleNamespace ''b'' 10 1, exampleNamespace ''c'' 10 2, exampleNamespace ''d'' 10 3,
        exampleNamespace ''a'' 20 0]"
  "fst (sortByCreationTimestamp tiedNamespaces ((exampleWorld tiedNamespaces)\<lparr>orders := [tiedOrder]\<rparr>))
     = tiedOrder"
  by (simp_all add: sortByCreationTimestamp_def tiedOrder_sorts exampleWorld_def)
     (simp add: tiedNamespaces_def exampleNamespace_def new_object_def)

lemma deleteNamespaces_tied:
  "fst (deleteNamespaces exampleConfig tiedNamespaces 2 (exampleWorld tiedNamespaces)) = None"
  "fst (deleteNamespaces exampleConfig tiedNamespaces 2
          ((exampleWorld tiedNamespaces)\<lparr>orders := [tiedOrder]\<rparr>)) = None"
  by (simp_all add: deleteNamespaces_def sortByCreationTimestamp_def tiedOrder_sorts)
     (simp_all add: tiedOrder_def tiedNamespaces_def example_defs client_defs
        delete_resourceManager_def Let_def)

lemma deleteNamespaces_example:
  "fst (deleteNamespaces exampleConfig threeNamespaces 2 (exampleWorld threeNamespaces)) = None"
  "objects (snd (deleteNamespaces exampleConfig threeNamespaces 2 (exampleWorld threeNamespaces)))
     = [exampleNamespace ''a'' 30 0]"
  by (simp_all add: deleteNamespaces_def sortByCreationTimestamp_def example_defs
        client_defs delete_resourceManager_def Let_def)

theorem deleteNamespaces_oldest_first_witness:
  "fst (deleteNamespaces exampleConfig threeNamespaces 2 (exampleWorld threeNamespaces)) = None
   \<and> objects (snd (deleteNamespaces exampleConfig threeNamespaces 2 (exampleWorld threeNamespaces)))
       = [exampleNamespace ''a'' 30 0]
   \<and> log (snd (deleteNamespaces exampleConfig threeNamespaces 2 (exampleWorld threeNamespaces)))
       = [(DeleteReq KNamespace [] ''b'' (Some 30), None),
          (DeleteReq KNamespace [] ''c'' (Some 30), None)]
   \<and> log (snd (deleteNamespaces exampleConfig tiedNamespaces 2 (exampleWorld tiedNamespaces)))
       = [(DeleteReq KNamespace [] ''b'' (Some 30), None),
          (DeleteReq KNamespace [] ''c'' (Some 30), None)]
   \<and> log (snd (deleteNamespaces exampleConfig tiedNamespaces 2
                  ((exampleWorld tiedNamespaces)\<lparr>orders := [tiedOrder]\<rparr>)))
       = [(DeleteReq KNamespace [] ''d'' (Some 30), None),
          (DeleteReq KNamespace [] ''b'' (Some 30), None)]"
proof -
  let ?w3 = "exampleWorld threeNamespaces"
  let ?w = "exampleWorld tiedNamespaces"
  let ?u = "(exampleWorld tiedNamespaces)\<lparr>orders := [tiedOrder]\<rparr>"
  have g: "GracefulDeletes (CleanupConfig (Spec exampleConfig))"
    by (simp add: exampleConfig_def exampleSpec_def)
  have e: "log ?w3 = []" "log ?w = []" "log ?u = []" by (simp_all add: exampleWorld_def)
  have d3: "distinct (map CreationTimestamp threeNamespaces)"
    by (simp add: threeNamespaces_def exampleNamespace_def new_object_def)
  have run3: "deleteNamespaces exampleConfig threeNamespaces 2 ?w3
      = (None, snd (deleteNamespaces exampleConfig threeNamespaces 2 ?w3))"
    using deleteNamespaces_example(1) by (simp add: prod_eq_iff)
  have s3: "fst (sortByCreationTimestamp threeNamespaces ?w3) = sort_key CreationTimestamp threeNamespaces"
    using deleteNamespaces_oldest_first [OF run3] d3 by blast
  have "log (snd (deleteNamespaces exampleConfig threeNamespaces 2 ?w3))
      = log ?w3 @ map (\<lambda>ns. (namespaceDelete exampleConfig ns, None))
          (take (nat 2) (fst (sortByCreationTimestamp threeNamespaces ?w3)))"
    using deleteNamespaces_oldest_first [OF run3] by blast
  then have l3: "log (snd (deleteNamespaces exampleConfig threeNamespaces 2 ?w3))
       = [(DeleteReq KNamespace [] ''b'' (Some 30), None),
          (DeleteReq KNamespace [] ''c'' (Some 30), None)]"
    unfolding s3 e
    by (simp add: namespaceDelete_def g threeNamespaces_def exampleNamespace_def new_object_def)
  have run: "deleteNamespaces exampleConfig tiedNamespaces 2 ?w
      = (None, snd (deleteNamespaces exampleConfig tiedNamespaces 2 ?w))"
    using deleteNamespaces_tied(1) by (simp add: prod_eq_iff)
  have "log (snd (deleteNamespaces exampleConfig tiedNamespaces 2 ?w))
      = log ?w @ map (\<lambda>ns. (namespaceDelete exampleConfig ns, None))
          (take (nat 2) (fst (sortByCreationTimestamp tiedNamespaces ?w)))"
    using deleteNamespaces_oldest_first [OF run] by blast
  then have l: "log (snd (deleteNamespaces exampleConfig tiedNamespaces 2 ?w))
       = [(DeleteReq KNamespace [] ''b'' (Some 30), None),
          (DeleteReq KNamespace [] ''c'' (Some 30), None)]"
    unfolding sort_tiedNamespaces e
    by (simp add: namespaceDelete_def g exampleNamespace_def new_object_def)
  have runu: "deleteNamespaces exampleConfig tiedNamespaces 2 ?u
      = (None, snd (deleteNamespaces exampleConfig tiedNamespaces 2 ?u))"
    using deleteNamespaces_tied(2) by (simp add: prod_eq_iff)
  have "log (snd (deleteNamespaces exampleConfig tiedNamespaces 2 ?u))
      = log ?u @ map (\<lambda>ns. (namespaceDelete exampleConfig ns, None))
          (take (nat 2) (fst (sortByCreationTimestamp tiedNamespaces ?u)))"
    using deleteNamespaces_oldest_first [OF runu] by blast
  then have lu: "log (snd (deleteNamespaces exampleConfig tiedNamespaces 2 ?u))
       = [(DeleteReq KNamespace [] ''d'' (Some 30), None),
          (DeleteReq KNamespace [] ''b'' (Some 30), None)]"
    unfolding sort_tiedNamespaces e
    by (simp add: namespaceDelete_def g tiedOrder_def exampleNamespace_def new_object_def)
  from deleteNamespaces_example l3 l lu show ?thesis by blast
qed
section \<open>The namespace-interval gate\<close>












lemma scenario_three_namespaces:
  "(case manageNamespaces_loop scenarioConfig scenarioNamespaces [] (exampleWorld scenarioNamespaces) of
      (r, w) \<Rightarrow> r = Ok [(''configMaps'', 2)]
         \<and> map Namespace (filter (\<lambda>ob. Kind ob = KConfigMap) (objects w)) = [''ns-0'', ''ns-2''])"
  by (simp add: scenarioConfig_def scenarioNamespaces_def upto_rec1 itoa_def nat_to_string.simps
        example_defs client_defs isNamespaceReady_def checkNamespaceStatus_def
        manageNamespaceResources_def manageKind_def then_res_def
        shouldCreateResourceForNamespace_def Atoi_def strip_sign_def dec_val_def
        signed_modulo_int_def manageConfigMaps_def managed_selector_def int32_def
        generateConfigMap_def flip_def add_counts_def count_of_def Let_def)



section \<open>Scaling down removes the highest positions first\<close>






























section \<open>The Degraded condition\<close>

lemma FormatFloat_zero: "FormatFloat_f 2 (Finite 0 0) = ''0.00''"
  by code_simp

lemma ErrorRate_calculateMetrics: "ErrorRate (calculateMetrics cfg k n rc c) = ''0.00''"
  by (simp add: calculateMetrics_def Let_def FormatFloat_zero)

lemma ParseFloat_zero: "ParseFloat ''0.00'' = Inr (Finite 0 0)"
  by code_simp

lemma not_gt: "\<not> fgt (Finite 0 0) (Finite 10 0)"
  by code_simp

lemma updateConditions_degraded:
  "degradedConditions (st\<lparr>Conditions := updateConditions cfg k now\<rparr>)
     = [if (\<exists>e. ParseFloat (ErrorRate (Metrics (ConfigStatus cfg))) = Inr e \<and> fgt e (Finite 10 0))
        then \<lparr>ConditionType = ''Degraded'', Status = ConditionTrue, LastTransitionTime = now,
              ConditionReason = ''HighErrorRate'',
              ConditionMessage = ''High error rate: ''
                @ FormatFloat_f 1 (projr (ParseFloat (ErrorRate (Metrics (ConfigStatus cfg))))) @ ''%''\<rparr>
        else operatingNormally now]"
  by (simp add: degradedConditions_def updateConditions_def Let_def operatingNormally_def
        split: sum.splits)

lemma updateConditions_normal:
  "ErrorRate (Metrics (ConfigStatus cfg)) = ''0.00'' \<Longrightarrow>
   degradedConditions (st\<lparr>Conditions := updateConditions cfg k now\<rparr>) = [operatingNormally now]"
  by (simp add: updateConditions_degraded ParseFloat_zero not_gt)

lemma next_fault_clock: "clock (snd (next_fault c)) = clock c"
  by (simp add: next_fault_def split: list.splits)

lemma client_GetConfig_frame:
  "client_GetConfig c = (r, c1) \<Longrightarrow>
     clock c1 = clock c \<and> statusWrites c1 = statusWrites c"
  by (auto simp: client_GetConfig_def next_fault_def record_req_def statusWrites_def
        List.map_filter_def Let_def split: list.splits prod.splits)

lemma client_StatusUpdate_writes:
  "client_StatusUpdate cfg c = (r, c1) \<Longrightarrow>
     statusWrites c1 = statusWrites c @ [ConfigStatus cfg]
     \<and> (r = None \<longrightarrow> (\<exists>stored. config c1 = Some stored \<and> ConfigStatus stored = ConfigStatus cfg))"
  by (auto simp: client_StatusUpdate_def next_fault_def record_req_def statusWrites_def
        List.map_filter_def Let_def split: list.splits prod.splits option.splits if_splits)

text \<open>
  Claim C9. \<open>calculateMetrics\<close> writes the error rate \<open>0.00\<close> whatever its inputs are;
  that string parses to zero, which is not greater than 10; \<open>updateConditions\<close> sets its
  third condition, Degraded, to True exactly when the error rate of the status parses to
  a value greater than 10. So every status that \<open>updateStatus\<close> sends (at most one per
  call) has the one Degraded condition with status False and reason OperatingNormally,
  and after a successful call that is the Degraded condition of the stored status.
\<close>

theorem degraded_never_true:
  "ErrorRate (calculateMetrics cfg k n rc c) = ''0.00''
   \<and> ParseFloat ''0.00'' = Inr (Finite 0 0)
   \<and> \<not> fgt (Finite 0 0) (Finite 10 0)
   \<and> (Status (updateConditions cfg k now ! 2) = ConditionTrue
        \<longleftrightarrow> (\<exists>e. ParseFloat (ErrorRate (Metrics (ConfigStatus cfg))) = Inr e \<and> fgt e (Finite 10 0)))
   \<and> (\<exists>ws. statusWrites (snd (updateStatus cfg k n rc c)) = statusWrites c @ ws
          \<and> length ws \<le> 1
          \<and> (\<forall>st \<in> set ws. degradedConditions st = [operatingNormally (clock c)]))
   \<and> (snd (fst (updateStatus cfg k n rc c)) = None \<longrightarrow>
        (\<exists>stored. config (snd (updateStatus cfg k n rc c)) = Some stored
           \<and> degradedConditions (ConfigStatus stored) = [operatingNormally (clock c)]))"
proof -
  have a: "Status (updateConditions cfg k now ! 2) = ConditionTrue
        \<longleftrightarrow> (\<exists>e. ParseFloat (ErrorRate (Metrics (ConfigStatus cfg))) = Inr e \<and> fgt e (Finite 10 0))"
    by (simp add: updateConditions_def Let_def split: sum.splits)
  obtain r c1 where g: "client_GetConfig c = (r, c1)" by (meson surj_pair)
  note f = client_GetConfig_frame [OF g]
  have b: "(\<exists>ws. statusWrites (snd (updateStatus cfg k n rc c)) = statusWrites c @ ws
          \<and> length ws \<le> 1
          \<and> (\<forall>st \<in> set ws. degradedConditions st = [operatingNormally (clock c)]))
     \<and> (snd (fst (updateStatus cfg k n rc c)) = None \<longrightarrow>
        (\<exists>stored. config (snd (updateStatus cfg k n rc c)) = Some stored
           \<and> degradedConditions (ConfigStatus stored) = [operatingNormally (clock c)]))"
  proof (cases r)
    case (Inl e)
    then show ?thesis using g f by (simp add: updateStatus_def)
  next
    case (Inr latest)
    define metrics where "metrics = calculateMetrics latest k n rc c1"
    define status1 where "status1 = (ConfigStatus latest)
                \<lparr>ObservedGeneration := Generation latest,
                 KwokNodeCount := int32 k,
                 GeneratedNamespaces := int32 n,
                 LastReconcileTime := Some (clock c1),
                 Metrics := metrics,
                 TotalResources :=
                   \<lparr>ConfigMapsTotal = int32 (count_of rc ''configMaps''),
                    SecretsTotal = int32 (count_of rc ''secrets''),
                    RoutesTotal = int32 (count_of rc ''routes''),
                    ImageStreamsTotal = int32 (count_of rc ''imageStreams''),
                    BuildConfigsTotal = int32 (count_of rc ''buildConfigs''),
                    EventsTotal = int32 (count_of rc ''events'')\<rparr>\<rparr>"
    define latest1 where "latest1 = latest\<lparr>ConfigStatus := status1\<rparr>"
    define latest2 where "latest2 = latest1\<lparr>ConfigStatus :=
                          status1\<lparr>Conditions := updateConditions latest1 k (clock c1)\<rparr>\<rparr>"
    define c2 where "c2 = c1\<lparr>reconciler := (reconciler c1)
                       \<lparr>KwokNodeCountGauge := KwokNodeCount (ConfigStatus latest2),
                        GeneratedNamespacesGauge := GeneratedNamespaces (ConfigStatus latest2)\<rparr>\<rparr>"
    obtain r3 c3 where s: "client_StatusUpdate latest2 c2 = (r3, c3)" by (meson surj_pair)
    have er: "ErrorRate (Metrics (ConfigStatus latest1)) = ''0.00''"
      by (simp add: latest1_def status1_def metrics_def ErrorRate_calculateMetrics)
    have d: "degradedConditions (ConfigStatus latest2) = [operatingNormally (clock c)]"
      using updateConditions_normal [OF er, where st=status1 and k=k and now="clock c1"] f
      by (simp add: latest2_def)
    have w2: "statusWrites c2 = statusWrites c"
      using f by (simp add: c2_def statusWrites_def)
    have us: "updateStatus cfg k n rc c
        = (case r3 of Some e \<Rightarrow> ((no_requeue, Some (ApiError e)), c3)
                    | None \<Rightarrow> ((no_requeue, None), c3))"
      using g Inr s
      unfolding updateStatus_def Let_def metrics_def status1_def latest1_def latest2_def c2_def
      by simp
    from client_StatusUpdate_writes [OF s] w2 d
    show ?thesis unfolding us by (cases r3) auto
  qed
  from b have b1: "\<exists>ws. statusWrites (snd (updateStatus cfg k n rc c)) = statusWrites c @ ws
          \<and> length ws \<le> 1
          \<and> (\<forall>st \<in> set ws. degradedConditions st = [operatingNormally (clock c)])"
    and b2: "snd (fst (updateStatus cfg k n rc c)) = None \<longrightarrow>
        (\<exists>stored. config (snd (updateStatus cfg k n rc c)) = Some stored
           \<and> degradedConditions (ConfigStatus stored) = [operatingNormally (clock c)])"
    by blast+
  show ?thesis
    by (intro conjI) (rule ErrorRate_calculateMetrics ParseFloat_zero not_gt a b1 b2)+
qed

lemma updateStatus_example:
  "snd (fst (updateStatus exampleConfig 3 2 [] (exampleWorld []))) = None"
  "length (statusWrites (snd (updateStatus exampleConfig 3 2 [] (exampleWorld [])))) = 1"
  by (simp_all add: updateStatus_def client_GetConfig_def client_StatusUpdate_def next_fault_def
        record_req_def err_of_def exampleWorld_def exampleConfig_def Let_def statusWrites_def
        List.map_filter_def)

theorem degraded_never_true_witness:
  "snd (fst (updateStatus exampleConfig 3 2 [] (exampleWorld []))) = None
   \<and> map degradedConditions (statusWrites (snd (updateStatus exampleConfig 3 2 [] (exampleWorld []))))
       = [[operatingNormally 1000000000000]]
   \<and> (\<exists>stored. config (snd (updateStatus exampleConfig 3 2 [] (exampleWorld []))) = Some stored
         \<and> degradedConditions (ConfigStatus stored) = [operatingNormally 1000000000000])"
proof -
  have e: "statusWrites (exampleWorld []) = []" "clock (exampleWorld []) = 1000000000000"
    by (simp_all add: statusWrites_def exampleWorld_def List.map_filter_def)
  obtain ws where ws: "statusWrites (snd (updateStatus exampleConfig 3 2 [] (exampleWorld []))) = ws"
    by simp
  with updateStatus_example(2) have "\<exists>w. ws = [w]"
    by (cases ws) auto
  with degraded_never_true [of exampleConfig 3 2 "[]" "exampleWorld []"] updateStatus_example(1) ws
  show ?thesis unfolding e by auto
qed


end
